theory Spec2Isabelle
  imports Main "HOL-Library.Log_Nat"
begin

section \<open>EasyHoliday: itinerary-to-booking resolution\<close>

text \<open>
  A shallow embedding of \<^verbatim>\<open>src/booker_agent.py\<close>, \<^verbatim>\<open>src/tools/inventory_tools.py\<close> and
  \<^verbatim>\<open>src/tools/booking_tools.py\<close>.

  Conventions of the embedding.
  \<^item> Python's unbounded integers are \<open>int\<close>; for a positive divisor Python's \<open>//\<close> and
    \<open>%\<close> are HOL's \<open>div\<close> and \<open>mod\<close> (both floor).
  \<^item> A \<open>datetime.date\<close> is its proleptic Gregorian ordinal, an \<open>int\<close>; adding a
    \<open>timedelta(days=n)\<close> is adding \<open>n\<close>. The range check of \<open>date\<close> (years 1 to 9999)
    and the rendering of a date by \<open>isoformat()\<close> are not modelled: a date stored in a
    result or in a booking record stands for its ISO string.
  \<^item> The JSON files \<open>bookings.json\<close>, \<open>flights.json\<close> and \<open>hotels.json\<close> are the three
    lists of a \<open>store\<close> record, threaded through the functions that read and write them.
    A missing or unreadable file reads as the empty list, as \<open>_read_json\<close> and
    \<open>_load_json_list\<close> do; a failing write (\<open>OSError\<close>) is not modelled.
  \<^item> An inventory record is a dictionary read from JSON. Each key the code reads is a
    field of option type: \<open>None\<close> is a missing key, and a present key carries a value of the
    type the datasets use (a string or an integer).
  \<^item> The five user preferences that \<open>book_itinerary\<close> reads are dynamically typed
    (\<open>Dict[str, Any]\<close>): each is a missing key or a \<open>pyval\<close>.
  \<^item> An exception is a value of type \<open>error\<close>; a function that can raise returns
    \<open>error + 'a\<close>.
\<close>

subsection \<open>Strings\<close>

text \<open>
  \<open>str.lower()\<close> and \<open>str.strip()\<close> on the ASCII range: a \<open>char\<close> is a byte, and the
  code points beyond ASCII are not modelled.
\<close>

definition lower_char :: "char \<Rightarrow> char" where
  "lower_char c =
     (let n = (of_char c :: nat) in if 65 \<le> n \<and> n \<le> 90 then char_of (n + 32) else c)"

definition str_lower :: "string \<Rightarrow> string" where
  "str_lower s = map lower_char s"

definition isspace :: "char \<Rightarrow> bool" where
  "isspace c = (let n = (of_char c :: nat) in (9 \<le> n \<and> n \<le> 13) \<or> (28 \<le> n \<and> n \<le> 32))"

definition str_strip :: "string \<Rightarrow> string" where
  "str_strip s = rev (dropWhile isspace (rev (dropWhile isspace s)))"

text \<open>\<open>str(d.get(key, ""))\<close> for a key that holds a string when present.\<close>

definition str_get :: "string option \<Rightarrow> string" where
  "str_get v = (case v of None \<Rightarrow> [] | Some s \<Rightarrow> s)"

text \<open>\<open>int(d.get(key, 0))\<close> for a key that holds an integer when present.\<close>

definition int_get :: "int option \<Rightarrow> int" where
  "int_get v = (case v of None \<Rightarrow> 0 | Some n \<Rightarrow> n)"

subsection \<open>Dates\<close>

type_synonym date = int

definition digit_val :: "char \<Rightarrow> nat option" where
  "digit_val c =
     (let n = (of_char c :: nat) in if 48 \<le> n \<and> n \<le> 57 then Some (n - 48) else None)"

fun digits_val :: "nat \<Rightarrow> string \<Rightarrow> nat option" where
  "digits_val acc [] = Some acc"
| "digits_val acc (c # cs) =
     (case digit_val c of None \<Rightarrow> None | Some d \<Rightarrow> digits_val (10 * acc + d) cs)"

definition is_leap :: "nat \<Rightarrow> bool" where
  "is_leap y = (y mod 4 = 0 \<and> (y mod 100 \<noteq> 0 \<or> y mod 400 = 0))"

definition days_in_month :: "nat \<Rightarrow> nat \<Rightarrow> nat" where
  "days_in_month y m =
     (if m = 2 then (if is_leap y then 29 else 28)
      else if m = 4 \<or> m = 6 \<or> m = 9 \<or> m = 11 then 30 else 31)"

definition days_before_year :: "nat \<Rightarrow> nat" where
  "days_before_year y = (y - 1) * 365 + (y - 1) div 4 - (y - 1) div 100 + (y - 1) div 400"

definition days_before_month :: "nat \<Rightarrow> nat \<Rightarrow> nat" where
  "days_before_month y m = sum_list (map (days_in_month y) [1..<m])"

definition ymd2ord :: "nat \<Rightarrow> nat \<Rightarrow> nat \<Rightarrow> date" where
  "ymd2ord y m d = int (days_before_year y + days_before_month y m + d)"

text \<open>
  \<open>date.fromisoformat\<close> on the format \<open>YYYY-MM-DD\<close>; \<open>None\<close> is the \<open>ValueError\<close>.
  The further formats that recent Python versions accept (basic format, week dates) are
  not modelled: such a string counts as malformed.
\<close>

definition fromisoformat :: "string \<Rightarrow> date option" where
  "fromisoformat s =
     (if length s = 10 \<and> s ! 4 = CHR ''-'' \<and> s ! 7 = CHR ''-'' then
        (case digits_val 0 (take 4 s) of None \<Rightarrow> None | Some y \<Rightarrow>
         (case digits_val 0 (take 2 (drop 5 s)) of None \<Rightarrow> None | Some m \<Rightarrow>
          (case digits_val 0 (drop 8 s) of None \<Rightarrow> None | Some d \<Rightarrow>
             if 1 \<le> y \<and> 1 \<le> m \<and> m \<le> 12 \<and> 1 \<le> d \<and> d \<le> days_in_month y m
             then Some (ymd2ord y m d) else None)))
      else None)"

text \<open>
  \<^verbatim>\<open>_parse_date(record.get(key))\<close>: a missing key gives \<open>str(None)\<close>, which is no date.
\<close>

definition parse_date :: "string option \<Rightarrow> date option" where
  "parse_date v = (case v of None \<Rightarrow> None | Some s \<Rightarrow> fromisoformat s)"

subsection \<open>Dynamically typed values and exceptions\<close>

text \<open>The JSON scalars a user preference is modelled to carry.\<close>

datatype pyval = PyInt int | PyStr string

text \<open>
  \<open>BookerError\<close> is the one exception class of the resolver; its four raise sites are
  told apart by their message:
  \<^item> \<open>InvalidPreferences\<close>: \<^verbatim>\<open>"Invalid user preferences: ..."\<close>;
  \<^item> \<open>EmptyItinerary\<close>: \<^verbatim>\<open>"Chosen itinerary has no cities to visit."\<close>;
  \<^item> \<open>NoFlightsAvailable\<close>: \<^verbatim>\<open>"No available outbound or return flights for the selected trip."\<close>;
  \<^item> \<open>NoHotelsAvailable city style\<close>: \<^verbatim>\<open>"No hotels available in {city} for style {travel_style}."\<close>.
  The other constructors of \<open>error\<close> are the built-in exceptions that the code lets
  escape.
\<close>

datatype booker_failure =
    InvalidPreferences
  | EmptyItinerary
  | NoFlightsAvailable
  | NoHotelsAvailable string pyval

datatype error =
    BookerError booker_failure
  | TypeError
  | AttributeError
  | OverflowError
  | ValueError

subsection \<open>Floating point: \<open>int(n * 0.2)\<close> and \<open>int(n * 1.2)\<close>\<close>

text \<open>
  Python's \<open>float\<close> is the IEEE 754 binary64 format: a finite value is \<open>m * 2^e\<close> with a
  significand \<open>m\<close> of at most 53 bits. In \<open>n * c\<close> with an \<open>int\<close> \<open>n\<close> and a \<open>float\<close> \<open>c\<close>, the
  integer is first converted to the nearest double, then the exact product of the two
  doubles is rounded to the nearest double, both with ties to even; \<open>int()\<close> truncates
  toward zero. A value that rounds to \<open>2^1024\<close> or more does not exist as a finite double:
  the conversion raises \<open>OverflowError\<close>, the product is \<open>inf\<close> and \<open>int(inf)\<close> raises
  \<open>OverflowError\<close>. The magnitude of a double is the pair \<open>(m, e)\<close>; the sign is kept apart
  (rounding to nearest is symmetric). Subnormal results cannot arise from an integer
  times the constants used here.
\<close>

definition round_half_even :: "int \<Rightarrow> nat \<Rightarrow> int" where
  "round_half_even a s =
     (let q = a div 2 ^ s; r = a mod 2 ^ s
      in if 2 ^ s < 2 * r \<or> (2 ^ s = 2 * r \<and> odd q) then q + 1 else q)"

definition round_to_double :: "int \<Rightarrow> int \<Rightarrow> int \<times> int" where
  "round_to_double m e =
     (if bitlen m \<le> 53 then (m, e)
      else (round_half_even m (nat (bitlen m - 53)), e + (bitlen m - 53)))"

definition double_overflows :: "int \<times> int \<Rightarrow> bool" where
  "double_overflows x = (0 \<le> snd x \<and> 2 ^ 1024 \<le> fst x * 2 ^ nat (snd x))"

text \<open>\<open>int(n * c)\<close> for the positive double \<open>c = M * 2^(-k)\<close>, given as \<open>(M, k)\<close>.\<close>

definition int_mul_float :: "int \<Rightarrow> int \<times> nat \<Rightarrow> error + int" where
  "int_mul_float n c =
     (let x = round_to_double \<bar>n\<bar> 0
      in if double_overflows x then Inl OverflowError
         else let p = round_to_double (fst x * fst c) (snd x - int (snd c))
              in if double_overflows p then Inl OverflowError
                 else Inr (sgn n * (if 0 \<le> snd p then fst p * 2 ^ nat (snd p)
                                     else fst p div 2 ^ nat (- snd p))))"

text \<open>The doubles that the literals \<open>0.2\<close> and \<open>1.2\<close> denote.\<close>

definition float_0_2 :: "int \<times> nat" where
  "float_0_2 = (3602879701896397, 54)"

definition float_1_2 :: "int \<times> nat" where
  "float_1_2 = (5404319552844595, 52)"

subsection \<open>Inventory catalog\<close>

text \<open>The keys of a flight record: \<open>id\<close>, \<open>from\<close>, \<open>to\<close>, \<open>date\<close>, \<open>seats_left\<close>, \<open>base_price_idr\<close>.\<close>

record flight =
  fl_id :: "string option"
  fl_from :: "string option"
  fl_to :: "string option"
  fl_date :: "string option"
  seats_left :: "int option"
  base_price_idr :: "int option"

text \<open>
  The keys of a hotel record: \<open>id\<close>, \<open>name\<close>, \<open>city\<close>, \<open>country\<close>, \<open>category\<close>,
  \<open>rooms_left\<close>, \<open>price_per_night_idr\<close>, \<open>available_from\<close>, \<open>available_to\<close>.
\<close>

record hotel =
  h_id :: "string option"
  h_name :: "string option"
  h_city :: "string option"
  h_country :: "string option"
  h_category :: "string option"
  rooms_left :: "int option"
  price_per_night_idr :: "int option"
  available_from :: "string option"
  available_to :: "string option"

text \<open>
  \<^verbatim>\<open>find_flights_for_trip\<close> runs the same two comprehensions for the outbound and for the
  return leg; \<open>flight_options\<close> is that computation for one leg from \<open>a\<close> to \<open>b\<close> on day \<open>d\<close>:
  the exact-date matches, or else the five nearest of the dated ones. \<open>list.sort\<close> is a
  stable sort, as \<open>sort_key\<close> is.
\<close>

definition on_route :: "string \<Rightarrow> string \<Rightarrow> flight \<Rightarrow> bool" where
  "on_route a b f =
     (str_lower (str_get (fl_from f)) = str_lower (str_strip a) \<and>
      str_lower (str_get (fl_to f)) = str_lower (str_strip b))"

definition has_seats :: "flight \<Rightarrow> bool" where
  "has_seats f = (0 < int_get (seats_left f))"

definition days_from :: "date \<Rightarrow> flight \<Rightarrow> int" where
  "days_from d f = (case parse_date (fl_date f) of None \<Rightarrow> 0 | Some x \<Rightarrow> \<bar>x - d\<bar>)"

definition flight_options :: "flight list \<Rightarrow> string \<Rightarrow> string \<Rightarrow> date \<Rightarrow> flight list" where
  "flight_options flights a b d =
     (let options =
            filter (\<lambda>f. on_route a b f \<and> has_seats f \<and> parse_date (fl_date f) = Some d) flights
      in if options = [] then
           take 5 (sort_key (days_from d)
             (filter (\<lambda>f. on_route a b f \<and> has_seats f \<and> parse_date (fl_date f) \<noteq> None) flights))
         else options)"

text \<open>
  The result is the pair (\<open>outbound_options\<close>, \<open>return_options\<close>). The origin is a user
  preference: \<open>origin.strip()\<close> is evaluated for the first flight of the catalog and
  raises \<open>AttributeError\<close> when the origin is no string.
\<close>

definition find_flights_for_trip ::
  "flight list \<Rightarrow> pyval \<Rightarrow> string \<Rightarrow> string \<Rightarrow> date \<Rightarrow> date \<Rightarrow> error + (flight list \<times> flight list)" where
  "find_flights_for_trip flights origin first_city last_city start_date return_date =
     (case origin of
        PyInt _ \<Rightarrow> (if flights = [] then Inr ([], []) else Inl AttributeError)
      | PyStr orig \<Rightarrow>
          Inr (flight_options flights orig first_city start_date,
               flight_options flights last_city orig return_date))"

text \<open>
  \<^verbatim>\<open>find_hotels_for_city\<close>. The conjuncts of the comprehension are evaluated left to
  right and stop at the first false one, so \<open>country.strip()\<close> runs only for a hotel of the
  city and \<open>style.strip()\<close> only for a hotel of the city and the country; they raise
  \<open>AttributeError\<close> for a missing country and for a style that is no string.
\<close>

definition hotel_available :: "string \<Rightarrow> date \<Rightarrow> date \<Rightarrow> hotel \<Rightarrow> bool" where
  "hotel_available style stay_start stay_end h =
     (str_lower (str_get (h_category h)) = str_lower (str_strip style) \<and>
      0 < int_get (rooms_left h) \<and>
      (case parse_date (available_from h) of None \<Rightarrow> False | Some a_from \<Rightarrow>
       (case parse_date (available_to h) of None \<Rightarrow> False | Some a_to \<Rightarrow>
          a_from \<le> stay_start \<and> stay_start \<le> a_to \<and> a_from \<le> stay_end \<and> stay_end \<le> a_to)))"

fun find_hotels_for_city ::
  "hotel list \<Rightarrow> string \<Rightarrow> string option \<Rightarrow> pyval \<Rightarrow> date \<Rightarrow> date \<Rightarrow> error + hotel list" where
  "find_hotels_for_city [] city country style stay_start stay_end = Inr []"
| "find_hotels_for_city (h # hs) city country style stay_start stay_end =
     (if str_lower (str_get (h_city h)) \<noteq> str_lower (str_strip city)
      then find_hotels_for_city hs city country style stay_start stay_end
      else (case country of
          None \<Rightarrow> Inl AttributeError
        | Some c \<Rightarrow>
            if str_lower (str_get (h_country h)) \<noteq> str_lower (str_strip c)
            then find_hotels_for_city hs city country style stay_start stay_end
            else (case style of
                PyInt _ \<Rightarrow> Inl AttributeError
              | PyStr s \<Rightarrow>
                  (case find_hotels_for_city hs city country style stay_start stay_end of
                     Inl e \<Rightarrow> Inl e
                   | Inr rest \<Rightarrow>
                       Inr (if hotel_available s stay_start stay_end h then h # rest else rest)))))"

subsection \<open>Python's \<open>min\<close> with a key\<close>

text \<open>
  \<open>min(xs, key=k)\<close> keeps the first element and replaces it only by a strictly smaller
  one; on the empty list it raises \<open>ValueError\<close> (\<open>None\<close> here).
\<close>

fun min_from :: "('a \<Rightarrow> int) \<Rightarrow> 'a \<Rightarrow> 'a list \<Rightarrow> 'a" where
  "min_from key best [] = best"
| "min_from key best (x # xs) =
     (if key x < key best then min_from key x xs else min_from key best xs)"

definition py_min :: "('a \<Rightarrow> int) \<Rightarrow> 'a list \<Rightarrow> 'a option" where
  "py_min key xs = (case xs of [] \<Rightarrow> None | x # rest \<Rightarrow> Some (min_from key x rest))"

subsection \<open>Night allocator\<close>

text \<open>
  \<^verbatim>\<open>_split_nights_across_cities\<close>: the loop over \<open>enumerate(cities)\<close>, writing
  \<open>nights[city]\<close> at each step. The dictionary is a map, so a repeated city name
  overwrites its earlier entry, as in Python.
\<close>

fun split_nights_loop ::
  "int \<Rightarrow> int \<Rightarrow> nat \<Rightarrow> string list \<Rightarrow> (string \<rightharpoonup> int) \<Rightarrow> (string \<rightharpoonup> int)" where
  "split_nights_loop base remainder idx [] nights = nights"
| "split_nights_loop base remainder idx (city # rest) nights =
     split_nights_loop base remainder (Suc idx) rest
       (nights(city \<mapsto> base + (if int idx < remainder then 1 else 0)))"

definition split_nights_across_cities :: "string list \<Rightarrow> int \<Rightarrow> (string \<rightharpoonup> int)" where
  "split_nights_across_cities cities total_days =
     (if cities = [] then Map.empty
      else split_nights_loop (total_days div int (length cities))
             (total_days mod int (length cities)) 0 cities Map.empty)"

subsection \<open>Booking ledger\<close>

text \<open>
  \<open>payment_info\<close>: \<open>auto_book_allowed\<close> is true when the key holds \<open>True\<close>
  (\<^verbatim>\<open>payment_info.get("auto_book_allowed") is True\<close>).
\<close>

record payment_info =
  auto_book_allowed :: bool
  card_last4 :: "string option"

record payment_result =
  pr_status :: string
  transaction_id :: string
  charged_amount_idr :: int
  pr_card_last4 :: "string option"

text \<open>
  A chosen hotel is \<open>hotel_copy\<close>: the catalog record with the keys \<open>nights\<close>,
  \<open>stay_start_date\<close> and \<open>stay_end_date\<close> added.
\<close>

record chosen_hotel =
  ch_hotel :: hotel
  ch_nights :: int
  ch_stay_start_date :: date
  ch_stay_end_date :: date

record booking_stay =
  bs_hotel_id :: "string option"
  bs_hotel_name :: "string option"
  bs_city :: "string option"
  bs_country :: "string option"
  bs_nights :: int
  bs_stay_start_date :: date
  bs_stay_end_date :: date
  bs_category :: "string option"
  bs_price_per_night_idr :: "int option"

record booking_record =
  booking_id :: string
  created_at :: string
  br_country :: "string option"
  br_cities :: "string list"
  br_start_date :: date
  br_end_date :: date
  flight_ids :: "string list"
  hotel_ids :: "string list"
  stays :: "booking_stay list"
  flight_details :: "flight list"
  br_total_price_idr :: int
  payment_transaction_id :: string
  br_card_last4 :: "string option"

record store =
  bookings :: "booking_record list"
  flights :: "flight list"
  hotels :: "hotel list"

text \<open>
  \<^verbatim>\<open>simulate_payment\<close>; \<open>uuid_hex\<close> is the value of \<open>uuid.uuid4().hex\<close>, supplied by the
  environment.
\<close>

definition simulate_payment :: "string \<Rightarrow> int \<Rightarrow> payment_info \<Rightarrow> payment_result" where
  "simulate_payment uuid_hex total_price payment =
     \<lparr>pr_status = ''success'', transaction_id = ''pay_'' @ uuid_hex,
      charged_amount_idr = total_price, pr_card_last4 = card_last4 payment\<rparr>"

text \<open>
  \<^verbatim>\<open>_decrement_inventory\<close>, generic in the file and the quantity key as the source is:
  \<open>get_id\<close> reads the key \<open>id\<close>, \<open>get_qty\<close> and \<open>set_qty\<close> read and write the quantity
  key. The loop returns the records and the flag \<open>changed\<close>; the file is written only
  when the flag is set.
\<close>

fun decrement_loop ::
  "('r \<Rightarrow> string option) \<Rightarrow> ('r \<Rightarrow> int option) \<Rightarrow> (int \<Rightarrow> 'r \<Rightarrow> 'r) \<Rightarrow>
   string list \<Rightarrow> 'r list \<Rightarrow> bool \<Rightarrow> 'r list \<times> bool" where
  "decrement_loop get_id get_qty set_qty ids [] changed = ([], changed)"
| "decrement_loop get_id get_qty set_qty ids (record # rest) changed =
     (if str_get (get_id record) \<in> set ids
      then (case decrement_loop get_id get_qty set_qty ids rest True of
              (rest', changed') \<Rightarrow>
                (set_qty (max 0 (int_get (get_qty record) - 1)) record # rest', changed'))
      else (case decrement_loop get_id get_qty set_qty ids rest changed of
              (rest', changed') \<Rightarrow> (record # rest', changed')))"

definition decrement_inventory ::
  "('r \<Rightarrow> string option) \<Rightarrow> ('r \<Rightarrow> int option) \<Rightarrow> (int \<Rightarrow> 'r \<Rightarrow> 'r) \<Rightarrow>
   'r list \<Rightarrow> string list \<Rightarrow> 'r list" where
  "decrement_inventory get_id get_qty set_qty data ids =
     (if ids = [] then data
      else (case decrement_loop get_id get_qty set_qty ids data False of
              (data', changed) \<Rightarrow> if changed then data' else data))"

definition decrement_flights :: "flight list \<Rightarrow> string list \<Rightarrow> flight list" where
  "decrement_flights data ids =
     decrement_inventory fl_id seats_left (\<lambda>q f. f\<lparr>seats_left := Some q\<rparr>) data ids"

definition decrement_hotels :: "hotel list \<Rightarrow> string list \<Rightarrow> hotel list" where
  "decrement_hotels data ids =
     decrement_inventory h_id rooms_left (\<lambda>q h. h\<lparr>rooms_left := Some q\<rparr>) data ids"

text \<open>\<open>str(n)\<close> and the format \<open>{n:04d}\<close> for a natural number.\<close>

fun decimal :: "nat \<Rightarrow> string" where
  "decimal n =
     (if n < 10 then [char_of (48 + n)] else decimal (n div 10) @ [char_of (48 + n mod 10)])"

declare decimal.simps [simp del]

definition format_04d :: "nat \<Rightarrow> string" where
  "format_04d n = replicate (4 - length (decimal n)) (CHR ''0'') @ decimal n"

text \<open>\<^verbatim>\<open>[x.get("id") for x in xs if x.get("id")]\<close>: the ids that are present and not empty.\<close>

fun truthy_ids :: "string option list \<Rightarrow> string list" where
  "truthy_ids [] = []"
| "truthy_ids (None # rest) = truthy_ids rest"
| "truthy_ids (Some i # rest) = (if i = [] then truthy_ids rest else i # truthy_ids rest)"

definition booking_stay_of :: "chosen_hotel \<Rightarrow> booking_stay" where
  "booking_stay_of h =
     \<lparr>bs_hotel_id = h_id (ch_hotel h), bs_hotel_name = h_name (ch_hotel h),
      bs_city = h_city (ch_hotel h), bs_country = h_country (ch_hotel h),
      bs_nights = ch_nights h, bs_stay_start_date = ch_stay_start_date h,
      bs_stay_end_date = ch_stay_end_date h, bs_category = h_category (ch_hotel h),
      bs_price_per_night_idr = price_per_night_idr (ch_hotel h)\<rparr>"

text \<open>
  \<^verbatim>\<open>create_booking\<close>; \<open>utcnow\<close> is the value of \<open>datetime.utcnow().isoformat()\<close>. The
  ledger is written first, then the flights file, then the hotels file.
\<close>

definition create_booking ::
  "store \<Rightarrow> string \<Rightarrow> string option \<Rightarrow> string list \<Rightarrow> date \<Rightarrow> date \<Rightarrow> flight list \<Rightarrow>
   chosen_hotel list \<Rightarrow> int \<Rightarrow> payment_info \<Rightarrow> payment_result \<Rightarrow> booking_record \<times> store" where
  "create_booking st utcnow country cities start_date end_date chosen_flights chosen_hotels
     total_price payment payment_res =
     (let fids = truthy_ids (map fl_id chosen_flights);
          hids = truthy_ids (map (\<lambda>h. h_id (ch_hotel h)) chosen_hotels);
          record =
            \<lparr>booking_id = ''BK-'' @ format_04d (length (bookings st) + 1),
             created_at = utcnow,
             br_country = country,
             br_cities = cities,
             br_start_date = start_date,
             br_end_date = end_date,
             flight_ids = fids,
             hotel_ids = hids,
             stays = map booking_stay_of chosen_hotels,
             flight_details = chosen_flights,
             br_total_price_idr = total_price,
             payment_transaction_id = transaction_id payment_res,
             br_card_last4 = card_last4 payment\<rparr>;
          st1 = st\<lparr>bookings := bookings st @ [record]\<rparr>;
          st2 = st1\<lparr>flights := decrement_flights (flights st1) fids\<rparr>;
          st3 = st2\<lparr>hotels := decrement_hotels (hotels st2) hids\<rparr>
      in (record, st3))"

subsection \<open>Itinerary resolver\<close>

text \<open>
  The keys of \<open>user_prefs\<close> and of \<open>chosen_itinerary\<close> that \<^verbatim>\<open>book_itinerary\<close> reads. The
  cities of an itinerary are strings.
\<close>

record user_prefs =
  origin_city :: "pyval option"
  travel_style :: "pyval option"
  budget_idr :: "pyval option"
  trip_length_days :: "pyval option"
  start_date :: "pyval option"

record itinerary =
  cities :: "string list option"
  destination_country :: "string option"


record costs =
  outbound_flight :: int
  return_flight :: int
  total_flights :: int
  accommodation :: int
  buffer_activities_transport :: int
  grand_total :: int



text \<open>
  Lines 36 to 43: the \<open>try\<close> block. A missing key (\<open>KeyError\<close>), a start date that is
  no string (\<open>TypeError\<close>) or no ISO date (\<open>ValueError\<close>) is turned into the
  \<open>BookerError\<close> for invalid preferences. No other value is inspected.
\<close>

definition read_prefs :: "user_prefs \<Rightarrow> error + (pyval \<times> pyval \<times> pyval \<times> pyval \<times> date)" where
  "read_prefs prefs =
     (case origin_city prefs of None \<Rightarrow> Inl (BookerError InvalidPreferences) | Some origin \<Rightarrow>
      (case travel_style prefs of None \<Rightarrow> Inl (BookerError InvalidPreferences) | Some style \<Rightarrow>
       (case budget_idr prefs of None \<Rightarrow> Inl (BookerError InvalidPreferences) | Some budget \<Rightarrow>
        (case trip_length_days prefs of None \<Rightarrow> Inl (BookerError InvalidPreferences) | Some days \<Rightarrow>
         (case start_date prefs of
            None \<Rightarrow> Inl (BookerError InvalidPreferences)
          | Some (PyInt _) \<Rightarrow> Inl (BookerError InvalidPreferences)
          | Some (PyStr s) \<Rightarrow>
              (case fromisoformat s of
                 None \<Rightarrow> Inl (BookerError InvalidPreferences)
               | Some d \<Rightarrow> Inr (origin, style, budget, days, d)))))))"

text \<open>Lines 83 to 87: the style one tier below, compared as the exact string.\<close>

definition fallback_style :: "pyval \<Rightarrow> string option" where
  "fallback_style style =
     (if style = PyStr ''luxury'' then Some ''mid-range''
      else if style = PyStr ''mid-range'' then Some ''backpacker''
      else None)"

text \<open>Lines 79 to 95: the hotel of one stayed city.\<close>

definition choose_hotel ::
  "hotel list \<Rightarrow> string \<Rightarrow> string option \<Rightarrow> pyval \<Rightarrow> date \<Rightarrow> date \<Rightarrow> error + hotel" where
  "choose_hotel catalog city country style stay_start stay_end =
     (case find_hotels_for_city catalog city country style stay_start stay_end of
        Inl e \<Rightarrow> Inl e
      | Inr found \<Rightarrow>
          (case (if found = [] then
                   (case fallback_style style of
                      None \<Rightarrow> Inr found
                    | Some fb \<Rightarrow>
                        find_hotels_for_city catalog city country (PyStr fb) stay_start stay_end)
                 else Inr found) of
             Inl e \<Rightarrow> Inl e
           | Inr candidates \<Rightarrow>
               if candidates = [] then Inl (BookerError (NoHotelsAvailable city style))
               else (case py_min (\<lambda>h. int_get (price_per_night_idr h)) candidates of
                       None \<Rightarrow> Inl ValueError
                     | Some h \<Rightarrow> Inr h)))"

text \<open>
  Lines 70 to 100: the loop over the cities, with \<open>day_offset\<close> as an argument. Each call
  of \<^verbatim>\<open>find_hotels_for_city\<close> reads the same hotels file, which the loop does not write.
\<close>

fun book_hotels ::
  "hotel list \<Rightarrow> (string \<rightharpoonup> int) \<Rightarrow> string option \<Rightarrow> pyval \<Rightarrow> date \<Rightarrow> int \<Rightarrow> string list \<Rightarrow>
   error + chosen_hotel list" where
  "book_hotels catalog nights_per_city country style start day_offset [] = Inr []"
| "book_hotels catalog nights_per_city country style start day_offset (city # rest) =
     (let nights = (case nights_per_city city of None \<Rightarrow> 0 | Some n \<Rightarrow> n)
      in if nights \<le> 0
         then book_hotels catalog nights_per_city country style start day_offset rest
         else
           (let stay_start = start + day_offset; stay_end = stay_start + (nights - 1)
            in (case choose_hotel catalog city country style stay_start stay_end of
                  Inl e \<Rightarrow> Inl e
                | Inr h \<Rightarrow>
                    (case book_hotels catalog nights_per_city country style start
                            (day_offset + nights) rest of
                       Inl e \<Rightarrow> Inl e
                     | Inr chosen \<Rightarrow>
                         Inr (\<lparr>ch_hotel = h, ch_nights = nights,
                               ch_stay_start_date = stay_start,
                               ch_stay_end_date = stay_end\<rparr> # chosen)))))"


text \<open>
  Lines 102 to 111 and 127 to 134: the cost breakdown, the total and the budget warning.
  \<open>budget_idr * 1.2\<close> raises \<open>TypeError\<close> for a budget that is a string.
\<close>

definition compute_costs ::
  "flight \<Rightarrow> flight \<Rightarrow> chosen_hotel list \<Rightarrow> pyval \<Rightarrow> error + (costs \<times> bool)" where
  "compute_costs outbound returning chosen_hotels budget =
     (let outbound_cost = int_get (base_price_idr outbound);
          return_cost = int_get (base_price_idr returning);
          flights_cost = outbound_cost + return_cost;
          total_accommodation =
            sum_list (map (\<lambda>h. int_get (price_per_night_idr (ch_hotel h)) * ch_nights h)
                       chosen_hotels);
          base_cost = flights_cost + total_accommodation
      in (case int_mul_float base_cost float_0_2 of
            Inl e \<Rightarrow> Inl e
          | Inr extra \<Rightarrow>
              (case budget of
                 PyStr _ \<Rightarrow> Inl TypeError
               | PyInt b \<Rightarrow>
                   (case int_mul_float b float_1_2 of
                      Inl e \<Rightarrow> Inl e
                    | Inr limit \<Rightarrow>
                        Inr (\<lparr>outbound_flight = outbound_cost, return_flight = return_cost,
                              total_flights = flights_cost, accommodation = total_accommodation,
                              buffer_activities_transport = extra,
                              grand_total = base_cost + extra\<rparr>,
                             limit < base_cost + extra)))))"

text \<open>
  Lines 36 to 134, everything before the commit: the end date, the city list, the two
  flights, the hotels, the costs and the warning. Nothing here writes a file.
\<close>

record resolution =
  rs_cities :: "string list"
  rs_start_date :: date
  rs_end_date :: date
  rs_flights :: "flight list"
  rs_hotels :: "chosen_hotel list"
  rs_costs :: costs
  rs_budget_warning :: bool

definition resolve :: "store \<Rightarrow> itinerary \<Rightarrow> user_prefs \<Rightarrow> error + resolution" where
  "resolve st chosen prefs =
     (case read_prefs prefs of
        Inl e \<Rightarrow> Inl e
      | Inr (origin, style, budget, days, start) \<Rightarrow>
          (case days of
             PyStr _ \<Rightarrow> Inl TypeError
           | PyInt n \<Rightarrow>
               (let end_date = start + (n - 1);
                    cs = (case cities chosen of None \<Rightarrow> [] | Some l \<Rightarrow> l)
                in if cs = [] then Inl (BookerError EmptyItinerary)
                   else
                     (case find_flights_for_trip (flights st) origin (hd cs) (last cs)
                             start end_date of
                        Inl e \<Rightarrow> Inl e
                      | Inr (outbound_options, return_options) \<Rightarrow>
                          if outbound_options = [] \<or> return_options = []
                          then Inl (BookerError NoFlightsAvailable)
                          else
                            (case py_min (\<lambda>f. int_get (base_price_idr f)) outbound_options of
                               None \<Rightarrow> Inl ValueError
                             | Some outbound \<Rightarrow>
                            (case py_min (\<lambda>f. int_get (base_price_idr f)) return_options of
                               None \<Rightarrow> Inl ValueError
                             | Some returning \<Rightarrow>
                            (case book_hotels (hotels st) (split_nights_across_cities cs n)
                                    (destination_country chosen) style start 0 cs of
                               Inl e \<Rightarrow> Inl e
                             | Inr chosen_hotels \<Rightarrow>
                            (case compute_costs outbound returning chosen_hotels budget of
                               Inl e \<Rightarrow> Inl e
                             | Inr (cb, warning) \<Rightarrow>
                                 Inr \<lparr>rs_cities = cs, rs_start_date = start,
                                      rs_end_date = end_date,
                                      rs_flights = [outbound, returning],
                                      rs_hotels = chosen_hotels, rs_costs = cb,
                                      rs_budget_warning = warning\<rparr>))))))))"


subsection \<open>Example data\<close>

text \<open>A small catalog, used to evaluate the functions on concrete inputs.\<close>

definition ex_flight ::
  "string \<Rightarrow> string \<Rightarrow> string \<Rightarrow> string \<Rightarrow> int \<Rightarrow> int option \<Rightarrow> flight" where
  "ex_flight i a b d s p =
     \<lparr>fl_id = Some i, fl_from = Some a, fl_to = Some b, fl_date = Some d,
      seats_left = Some s, base_price_idr = p\<rparr>"

definition ex_hotel ::
  "string \<Rightarrow> string \<Rightarrow> string \<Rightarrow> int \<Rightarrow> int option \<Rightarrow> hotel" where
  "ex_hotel i c cat r p =
     \<lparr>h_id = Some i, h_name = Some (''Hotel '' @ i), h_city = Some c, h_country = Some ''Japan'',
      h_category = Some cat, rooms_left = Some r, price_per_night_idr = p,
      available_from = Some ''2025-01-01'', available_to = Some ''2025-12-31''\<rparr>"

definition ex_store :: store where
  "ex_store =
     \<lparr>bookings = [],
      flights =
        [ex_flight ''F1'' ''Jakarta'' ''Tokyo'' ''2025-01-10'' 2 (Some 700000),
         ex_flight ''F2'' ''Jakarta'' ''Tokyo'' ''2025-01-10'' 1 (Some 500000),
         ex_flight ''F3'' ''Kyoto'' ''Jakarta'' ''2025-01-14'' 3 (Some 400000)],
      hotels =
        [ex_hotel ''H1'' ''Tokyo'' ''mid-range'' 2 (Some 100000),
         ex_hotel ''H2'' ''Kyoto'' ''luxury'' 1 (Some 300000)]\<rparr>"

definition ex_prefs :: user_prefs where
  "ex_prefs =
     \<lparr>origin_city = Some (PyStr ''Jakarta''), travel_style = Some (PyStr ''luxury''),
      budget_idr = Some (PyInt 1000000), trip_length_days = Some (PyInt 5),
      start_date = Some (PyStr ''2025-01-10'')\<rparr>"

definition ex_itinerary :: itinerary where
  "ex_itinerary = \<lparr>cities = Some [''Tokyo'', ''Kyoto''], destination_country = Some ''Japan''\<rparr>"

definition ex_payment :: payment_info where
  "ex_payment = \<lparr>auto_book_allowed = True, card_last4 = Some ''1111''\<rparr>"

definition ex_booking :: booking_record where
  "ex_booking =
     \<lparr>booking_id = ''BK-0001'', created_at = ''2025-01-01T00:00:00'', br_country = Some ''Japan'',
      br_cities = [''Tokyo''], br_start_date = 739261, br_end_date = 739265, flight_ids = [],
      hotel_ids = [], stays = [], flight_details = [], br_total_price_idr = 0,
      payment_transaction_id = ''pay_0'', br_card_last4 = None\<rparr>"

definition flight_F1 :: flight where
  "flight_F1 = ex_flight ''F1'' ''Jakarta'' ''Tokyo'' ''2025-01-10'' 2 (Some 700000)"

definition flight_F2 :: flight where
  "flight_F2 = ex_flight ''F2'' ''Jakarta'' ''Tokyo'' ''2025-01-10'' 1 (Some 500000)"

definition flight_F3 :: flight where
  "flight_F3 = ex_flight ''F3'' ''Kyoto'' ''Jakarta'' ''2025-01-14'' 3 (Some 400000)"

definition hotel_H1 :: hotel where
  "hotel_H1 = ex_hotel ''H1'' ''Tokyo'' ''mid-range'' 2 (Some 100000)"

definition hotel_H2 :: hotel where
  "hotel_H2 = ex_hotel ''H2'' ''Kyoto'' ''luxury'' 1 (Some 300000)"

text \<open>Two outbound flights, one day and three days after the start date, none on it.\<close>

definition flight_N1 :: flight where
  "flight_N1 = ex_flight ''N1'' ''Jakarta'' ''Tokyo'' ''2025-01-11'' 2 (Some 700000)"

definition flight_N2 :: flight where
  "flight_N2 = ex_flight ''N2'' ''Jakarta'' ''Tokyo'' ''2025-01-13'' 2 (Some 500000)"

definition near_store :: store where
  "near_store = ex_store\<lparr>flights := [flight_N1, flight_N2, flight_F3]\<rparr>"

text \<open>
  Two outbound flights of equal price, none on the start date; the first of the catalog
  is the farther one.
\<close>

definition flight_T1 :: flight where
  "flight_T1 = ex_flight ''T1'' ''Jakarta'' ''Tokyo'' ''2025-01-13'' 2 (Some 500000)"

definition flight_T2 :: flight where
  "flight_T2 = ex_flight ''T2'' ''Jakarta'' ''Tokyo'' ''2025-01-11'' 2 (Some 500000)"

definition tie_store :: store where
  "tie_store = ex_store\<lparr>flights := [flight_T1, flight_T2, flight_F3]\<rparr>"

text \<open>
  Two outbound flights, none on the start date: the first of the catalog is the farther
  one and has no price, the second has the price 0.
\<close>

definition flight_P1 :: flight where
  "flight_P1 = ex_flight ''P1'' ''Jakarta'' ''Tokyo'' ''2025-01-13'' 2 None"

definition flight_P2 :: flight where
  "flight_P2 = ex_flight ''P2'' ''Jakarta'' ''Tokyo'' ''2025-01-11'' 2 (Some 0)"

definition free_store :: store where
  "free_store = ex_store\<lparr>flights := [flight_P1, flight_P2, flight_F3]\<rparr>"

text \<open>One outbound flight, with no price.\<close>

definition noprice_store :: store where
  "noprice_store = ex_store\<lparr>flights := [flight_P1, flight_F3]\<rparr>"


section \<open>Properties\<close>

subsection \<open>Night allocator\<close>

lemma split_nights_loop_other:
  "c \<notin> set cs \<Longrightarrow> split_nights_loop b r k cs m c = m c"
  by (induction cs arbitrary: k m) auto

lemma split_nights_loop_dom:
  "dom (split_nights_loop b r k cs m) = dom m \<union> set cs"
  by (induction cs arbitrary: k m) auto

lemma split_nights_loop_nth:
  "distinct cs \<Longrightarrow> i < length cs \<Longrightarrow>
   split_nights_loop b r k cs m (cs ! i) = Some (b + (if int (k + i) < r then 1 else 0))"
proof (induction cs arbitrary: k m i)
  case Nil
  then show ?case by simp
next
  case (Cons c cs)
  show ?case
  proof (cases i)
    case 0
    with Cons.prems show ?thesis by (simp add: split_nights_loop_other)
  next
    case (Suc j)
    with Cons.prems have j: "j < length cs" and d: "distinct cs" by simp_all
    show ?thesis using Suc by (simp add: Cons.IH [OF d j] add.commute add.left_commute)
  qed
qed

lemma sum_list_first_ones:
  "(\<Sum>i\<leftarrow>[0..<n]. (if int i < r then 1 else 0 :: int)) = max 0 (min r (int n))"
  by (induction n) auto

lemma sum_list_split_values:
  assumes "0 \<le> r" "r \<le> int n"
  shows "(\<Sum>i\<leftarrow>[0..<n]. b + (if int i < r then 1 else 0 :: int)) = int n * b + r"
proof -
  have "(\<Sum>i\<leftarrow>[0..<n]. b + (if int i < r then 1 else 0 :: int))
        = (\<Sum>i\<leftarrow>[0..<n]. b) + (\<Sum>i\<leftarrow>[0..<n]. (if int i < r then 1 else 0 :: int))"
    by (simp add: sum_list_addf)
  also have "\<dots> = int n * b + max 0 (min r (int n))"
    by (simp only: sum_list_first_ones) (simp add: sum_list_triv)
  finally show ?thesis using assms by simp
qed

text \<open>
  Claim C1. For a non-empty list of distinct city names and a number of days of at least
  one, the allocator returns a mapping whose keys are exactly the input cities; with
  \<open>base = total_days div N\<close> and \<open>remainder = total_days mod N\<close>, the city at position \<open>i\<close> is
  mapped to \<open>base + 1\<close> when \<open>i < remainder\<close> and to \<open>base\<close> otherwise; and the values sum
  to \<open>total_days\<close>.
\<close>

theorem split_nights_allocation:
  assumes "cs \<noteq> []" and "distinct cs" and "1 \<le> total_days"
  shows "dom (split_nights_across_cities cs total_days) = set cs \<and>
    (\<forall>i < length cs.
       split_nights_across_cities cs total_days (cs ! i) =
         Some (total_days div int (length cs) +
               (if int i < total_days mod int (length cs) then 1 else 0))) \<and>
    (\<Sum>c\<leftarrow>cs. the (split_nights_across_cities cs total_days c)) = total_days"
proof -
  let ?n = "length cs"
  let ?b = "total_days div int ?n"
  let ?r = "total_days mod int ?n"
  let ?m = "split_nights_across_cities cs total_days"
  have n: "0 < int ?n" using assms(1) by simp
  have m: "?m = split_nights_loop ?b ?r 0 cs Map.empty"
    using assms(1) by (simp add: split_nights_across_cities_def)
  have d: "dom ?m = set cs"
    by (simp add: m split_nights_loop_dom)
  have v: "\<forall>i < ?n. ?m (cs ! i) = Some (?b + (if int i < ?r then 1 else 0))"
    using split_nights_loop_nth [OF assms(2), of _ ?b ?r 0 Map.empty] by (simp add: m)
  have "map (\<lambda>c. the (?m c)) cs = map (\<lambda>i. the (?m (cs ! i))) [0..<?n]"
    by (simp add: map_equality_iff)
  also have "\<dots> = map (\<lambda>i. ?b + (if int i < ?r then 1 else 0)) [0..<?n]"
    using v by simp
  finally have "(\<Sum>c\<leftarrow>cs. the (?m c)) = (\<Sum>i\<leftarrow>[0..<?n]. ?b + (if int i < ?r then 1 else 0))"
    by simp
  also have "\<dots> = int ?n * ?b + ?r"
    using n by (intro sum_list_split_values) (simp_all add: less_imp_le)
  also have "\<dots> = total_days" by simp
  finally have s: "(\<Sum>c\<leftarrow>cs. the (?m c)) = total_days" .
  from d v s show ?thesis by blast
qed

theorem split_nights_allocation_witness:
  "[''Tokyo'', ''Kyoto'', ''Osaka''] \<noteq> [] \<and> distinct [''Tokyo'', ''Kyoto'', ''Osaka''] \<and> (1::int) \<le> 7 \<and>
   split_nights_across_cities [''Tokyo'', ''Kyoto'', ''Osaka''] 7 ''Tokyo'' = Some 3 \<and>
   split_nights_across_cities [''Tokyo'', ''Kyoto'', ''Osaka''] 7 ''Kyoto'' = Some 2 \<and>
   split_nights_across_cities [''Tokyo'', ''Kyoto'', ''Osaka''] 7 ''Osaka'' = Some 2 \<and>
   (\<Sum>c\<leftarrow>[''Tokyo'', ''Kyoto'', ''Osaka'']. the (split_nights_across_cities [''Tokyo'', ''Kyoto'', ''Osaka''] 7 c)) = 7"
proof -
  have h: "[''Tokyo'', ''Kyoto'', ''Osaka''] \<noteq> []" "distinct [''Tokyo'', ''Kyoto'', ''Osaka'']" "(1::int) \<le> 7"
    by simp_all
  from split_nights_allocation [OF h] have
    a: "\<forall>i<3. split_nights_across_cities [''Tokyo'', ''Kyoto'', ''Osaka''] 7 ([''Tokyo'', ''Kyoto'', ''Osaka''] ! i) = Some (7 div 3 + (if int i < 7 mod 3 then 1 else 0))"
    and s: "(\<Sum>c\<leftarrow>[''Tokyo'', ''Kyoto'', ''Osaka'']. the (split_nights_across_cities [''Tokyo'', ''Kyoto'', ''Osaka''] 7 c)) = 7"
    by simp_all
  from a [rule_format, of 0] a [rule_format, of 1] a [rule_format, of 2] s h show ?thesis
    by simp
qed

subsection \<open>Booking ledger\<close>

lemma decrement_loop_fst:
  "fst (decrement_loop gi gq sq ids xs ch) =
     map (\<lambda>r. if str_get (gi r) \<in> set ids then sq (max 0 (int_get (gq r) - 1)) r else r) xs"
  by (induction xs arbitrary: ch) (simp_all add: case_prod_beta)

lemma decrement_loop_snd:
  "snd (decrement_loop gi gq sq ids xs ch) = (ch \<or> (\<exists>r \<in> set xs. str_get (gi r) \<in> set ids))"
  by (induction xs arbitrary: ch) (auto simp: case_prod_beta)

lemma decrement_inventory_map:
  "decrement_inventory gi gq sq xs ids =
     map (\<lambda>r. if str_get (gi r) \<in> set ids then sq (max 0 (int_get (gq r) - 1)) r else r) xs"
proof (cases "ids = [] \<or> \<not> snd (decrement_loop gi gq sq ids xs False)")
  case True
  then have "\<forall>r \<in> set xs. str_get (gi r) \<notin> set ids"
    by (auto simp: decrement_loop_snd)
  then have "map (\<lambda>r. if str_get (gi r) \<in> set ids then sq (max 0 (int_get (gq r) - 1)) r else r) xs = xs"
    by (simp add: map_idI)
  with True show ?thesis
    by (auto simp: decrement_inventory_def case_prod_beta)
next
  case False
  then show ?thesis
    using decrement_loop_fst [of gi gq sq ids xs False]
    by (auto simp: decrement_inventory_def case_prod_beta)
qed

lemma decrement_flights_nth:
  assumes "i < length fs"
  shows "decrement_flights fs ids ! i =
     (if str_get (fl_id (fs ! i)) \<in> set ids
      then (fs ! i)\<lparr>seats_left := Some (max 0 (int_get (seats_left (fs ! i)) - 1))\<rparr>
      else fs ! i)"
  using assms by (simp add: decrement_flights_def decrement_inventory_map)

lemma decrement_hotels_nth:
  assumes "i < length hs"
  shows "decrement_hotels hs ids ! i =
     (if str_get (h_id (hs ! i)) \<in> set ids
      then (hs ! i)\<lparr>rooms_left := Some (max 0 (int_get (rooms_left (hs ! i)) - 1))\<rparr>
      else hs ! i)"
  using assms by (simp add: decrement_hotels_def decrement_inventory_map)

lemma decrement_lengths:
  "length (decrement_flights fs ids) = length fs" "length (decrement_hotels hs ids) = length hs"
  by (simp_all add: decrement_flights_def decrement_hotels_def decrement_inventory_map)

lemma create_booking_store:
  assumes "create_booking st now country cs sd ed fls hts price pay pres = (rec, st')"
  shows "flights st' = decrement_flights (flights st) (truthy_ids (map fl_id fls))"
    and "hotels st' = decrement_hotels (hotels st) (truthy_ids (map (\<lambda>h. h_id (ch_hotel h)) hts))"
    and "bookings st' = bookings st @ [rec]"
    and "flight_ids rec = truthy_ids (map fl_id fls)"
    and "hotel_ids rec = truthy_ids (map (\<lambda>h. h_id (ch_hotel h)) hts)"
  using assms by (auto simp: create_booking_def Let_def)

text \<open>
  Claim C7. A commit decrements the remaining seats of every inventory flight whose id is
  one of the booked flight ids, and the remaining rooms of every inventory hotel whose id
  is one of the booked hotel ids, by exactly one, floored at zero; every other record is
  left as it is, the inventories keep their length, and a booked id that no inventory
  record carries changes nothing (\<open>create_booking\<close> has no failure). A second commit of
  the same selection against the resulting store decrements the same records by one
  again, never below zero.
\<close>

theorem create_booking_decrements:
  assumes c1: "create_booking st now country cs sd ed fls hts price pay pres = (rec, st')"
    and c2: "create_booking st' now2 country cs sd ed fls hts price pay pres2 = (rec2, st'')"
  shows "flight_ids rec = truthy_ids (map fl_id fls) \<and>
    hotel_ids rec = truthy_ids (map (\<lambda>h. h_id (ch_hotel h)) hts) \<and>
    length (flights st') = length (flights st) \<and>
    length (hotels st') = length (hotels st) \<and>
    (\<forall>i < length (flights st).
       if str_get (fl_id (flights st ! i)) \<in> set (flight_ids rec)
       then flights st' ! i =
              (flights st ! i)\<lparr>seats_left := Some (max 0 (int_get (seats_left (flights st ! i)) - 1))\<rparr> \<and>
            flights st'' ! i =
              (flights st ! i)\<lparr>seats_left :=
                 Some (max 0 (max 0 (int_get (seats_left (flights st ! i)) - 1) - 1))\<rparr>
       else flights st' ! i = flights st ! i \<and> flights st'' ! i = flights st ! i) \<and>
    (\<forall>i < length (hotels st).
       if str_get (h_id (hotels st ! i)) \<in> set (hotel_ids rec)
       then hotels st' ! i =
              (hotels st ! i)\<lparr>rooms_left := Some (max 0 (int_get (rooms_left (hotels st ! i)) - 1))\<rparr> \<and>
            hotels st'' ! i =
              (hotels st ! i)\<lparr>rooms_left :=
                 Some (max 0 (max 0 (int_get (rooms_left (hotels st ! i)) - 1) - 1))\<rparr>
       else hotels st' ! i = hotels st ! i \<and> hotels st'' ! i = hotels st ! i)"
proof -
  note s1 = create_booking_store [OF c1] and s2 = create_booking_store [OF c2]
  have f: "\<forall>i < length (flights st).
       if str_get (fl_id (flights st ! i)) \<in> set (flight_ids rec)
       then flights st' ! i =
              (flights st ! i)\<lparr>seats_left := Some (max 0 (int_get (seats_left (flights st ! i)) - 1))\<rparr> \<and>
            flights st'' ! i =
              (flights st ! i)\<lparr>seats_left :=
                 Some (max 0 (max 0 (int_get (seats_left (flights st ! i)) - 1) - 1))\<rparr>
       else flights st' ! i = flights st ! i \<and> flights st'' ! i = flights st ! i"
    by (simp add: s1 s2 decrement_flights_nth decrement_lengths int_get_def)
  have h: "\<forall>i < length (hotels st).
       if str_get (h_id (hotels st ! i)) \<in> set (hotel_ids rec)
       then hotels st' ! i =
              (hotels st ! i)\<lparr>rooms_left := Some (max 0 (int_get (rooms_left (hotels st ! i)) - 1))\<rparr> \<and>
            hotels st'' ! i =
              (hotels st ! i)\<lparr>rooms_left :=
                 Some (max 0 (max 0 (int_get (rooms_left (hotels st ! i)) - 1) - 1))\<rparr>
       else hotels st' ! i = hotels st ! i \<and> hotels st'' ! i = hotels st ! i"
    by (simp add: s1 s2 decrement_hotels_nth decrement_lengths int_get_def)
  from f h show ?thesis
    by (simp add: s1 decrement_lengths)
qed

theorem create_booking_decrements_witness:
  "\<exists>rec st' rec2 st''.
     create_booking ex_store ''t1'' (Some ''Japan'') [''Tokyo''] 10 12
       [flights ex_store ! 1, flights ex_store ! 2, ex_flight ''F9'' ''A'' ''B'' ''2025-01-10'' 1 None]
       [\<lparr>ch_hotel = hotels ex_store ! 1, ch_nights = 3, ch_stay_start_date = 10,
          ch_stay_end_date = 12\<rparr>] 100 ex_payment (simulate_payment ''u1'' 100 ex_payment)
       = (rec, st') \<and>
     create_booking st' ''t2'' (Some ''Japan'') [''Tokyo''] 10 12
       [flights ex_store ! 1, flights ex_store ! 2, ex_flight ''F9'' ''A'' ''B'' ''2025-01-10'' 1 None]
       [\<lparr>ch_hotel = hotels ex_store ! 1, ch_nights = 3, ch_stay_start_date = 10,
          ch_stay_end_date = 12\<rparr>] 100 ex_payment (simulate_payment ''u2'' 100 ex_payment)
       = (rec2, st'') \<and>
     flight_ids rec = [''F2'', ''F3'', ''F9''] \<and> hotel_ids rec = [''H2''] \<and>
     length (flights st') = 3 \<and> length (hotels st') = 2 \<and>
     seats_left (flights st' ! 0) = Some 2 \<and> seats_left (flights st'' ! 0) = Some 2 \<and>
     seats_left (flights st' ! 1) = Some 0 \<and> seats_left (flights st'' ! 1) = Some 0 \<and>
     seats_left (flights st' ! 2) = Some 2 \<and> seats_left (flights st'' ! 2) = Some 1 \<and>
     rooms_left (hotels st' ! 0) = Some 2 \<and> rooms_left (hotels st'' ! 0) = Some 2 \<and>
     rooms_left (hotels st' ! 1) = Some 0 \<and> rooms_left (hotels st'' ! 1) = Some 0"
proof -
  let ?fls = "[flights ex_store ! 1, flights ex_store ! 2, ex_flight ''F9'' ''A'' ''B'' ''2025-01-10'' 1 None]"
  let ?hts = "[\<lparr>ch_hotel = hotels ex_store ! 1, ch_nights = 3, ch_stay_start_date = 10,
          ch_stay_end_date = 12\<rparr>]"
  obtain rec st' where c1: "create_booking ex_store ''t1'' (Some ''Japan'') [''Tokyo''] 10 12
       ?fls ?hts 100 ex_payment (simulate_payment ''u1'' 100 ex_payment) = (rec, st')"
    by (cases "create_booking ex_store ''t1'' (Some ''Japan'') [''Tokyo''] 10 12
       ?fls ?hts 100 ex_payment (simulate_payment ''u1'' 100 ex_payment)")
  obtain rec2 st'' where c2: "create_booking st' ''t2'' (Some ''Japan'') [''Tokyo''] 10 12
       ?fls ?hts 100 ex_payment (simulate_payment ''u2'' 100 ex_payment) = (rec2, st'')"
    by (cases "create_booking st' ''t2'' (Some ''Japan'') [''Tokyo''] 10 12
       ?fls ?hts 100 ex_payment (simulate_payment ''u2'' 100 ex_payment)")
  note t = create_booking_decrements [OF c1 c2]
  from t have ids: "flight_ids rec = [''F2'', ''F3'', ''F9'']" "hotel_ids rec = [''H2'']"
    by (simp_all add: ex_store_def ex_flight_def ex_hotel_def)
  from t have len: "length (flights st') = 3" "length (hotels st') = 2"
    by (simp_all add: ex_store_def)
  from t have f: "\<forall>i < length (flights ex_store).
       if str_get (fl_id (flights ex_store ! i)) \<in> set (flight_ids rec)
       then flights st' ! i =
              (flights ex_store ! i)\<lparr>seats_left := Some (max 0 (int_get (seats_left (flights ex_store ! i)) - 1))\<rparr> \<and>
            flights st'' ! i =
              (flights ex_store ! i)\<lparr>seats_left :=
                 Some (max 0 (max 0 (int_get (seats_left (flights ex_store ! i)) - 1) - 1))\<rparr>
       else flights st' ! i = flights ex_store ! i \<and> flights st'' ! i = flights ex_store ! i"
    by blast
  from t have h: "\<forall>i < length (hotels ex_store).
       if str_get (h_id (hotels ex_store ! i)) \<in> set (hotel_ids rec)
       then hotels st' ! i =
              (hotels ex_store ! i)\<lparr>rooms_left := Some (max 0 (int_get (rooms_left (hotels ex_store ! i)) - 1))\<rparr> \<and>
            hotels st'' ! i =
              (hotels ex_store ! i)\<lparr>rooms_left :=
                 Some (max 0 (max 0 (int_get (rooms_left (hotels ex_store ! i)) - 1) - 1))\<rparr>
       else hotels st' ! i = hotels ex_store ! i \<and> hotels st'' ! i = hotels ex_store ! i"
    by blast
  have f0: "seats_left (flights st' ! 0) = Some 2 \<and> seats_left (flights st'' ! 0) = Some 2"
    using f [rule_format, of 0] by (simp add: ids ex_store_def ex_flight_def str_get_def int_get_def)
  have f1: "seats_left (flights st' ! 1) = Some 0 \<and> seats_left (flights st'' ! 1) = Some 0"
    using f [rule_format, of 1] by (simp add: ids ex_store_def ex_flight_def str_get_def int_get_def)
  have f2: "seats_left (flights st' ! 2) = Some 2 \<and> seats_left (flights st'' ! 2) = Some 1"
    using f [rule_format, of 2] by (simp add: ids ex_store_def ex_flight_def str_get_def int_get_def)
  have h0: "rooms_left (hotels st' ! 0) = Some 2 \<and> rooms_left (hotels st'' ! 0) = Some 2"
    using h [rule_format, of 0] by (simp add: ids ex_store_def ex_hotel_def str_get_def int_get_def)
  have h1: "rooms_left (hotels st' ! 1) = Some 0 \<and> rooms_left (hotels st'' ! 1) = Some 0"
    using h [rule_format, of 1] by (simp add: ids ex_store_def ex_hotel_def str_get_def int_get_def)
  from c1 c2 ids len f0 f1 f2 h0 h1 show ?thesis by blast
qed

lemma digit_val_char_of: "d < 10 \<Longrightarrow> digit_val (char_of (48 + d)) = Some d"
  by (simp add: digit_val_def Let_def)

lemma digits_val_append:
  "digits_val acc (xs @ ys) =
     (case digits_val acc xs of None \<Rightarrow> None | Some a \<Rightarrow> digits_val a ys)"
  by (induction xs arbitrary: acc) (auto split: option.splits)

lemma digits_val_decimal: "digits_val 0 (decimal n) = Some n"
proof (induction n rule: decimal.induct)
  case (1 n)
  show ?case
  proof (cases "n < 10")
    case True
    then show ?thesis
      by (subst decimal.simps) (simp add: digit_val_char_of)
  next
    case False
    with 1 have "digits_val 0 (decimal (n div 10)) = Some (n div 10)" by simp
    with False show ?thesis
      by (subst decimal.simps) (simp add: digits_val_append digit_val_char_of)
  qed
qed

lemma digits_val_zeros: "digits_val 0 (replicate k (CHR ''0'') @ ys) = digits_val 0 ys"
  by (induction k) (simp_all add: digit_val_def)

lemma all_digits_decimal: "\<forall>c \<in> set (decimal n). digit_val c \<noteq> None"
proof (induction n rule: decimal.induct)
  case (1 n)
  show ?case
  proof (cases "n < 10")
    case True
    then show ?thesis
      by (subst decimal.simps) (simp add: digit_val_char_of)
  next
    case False
    with 1 have "\<forall>c \<in> set (decimal (n div 10)). digit_val c \<noteq> None" by simp
    with False show ?thesis
      by (subst decimal.simps) (simp add: digit_val_char_of)
  qed
qed

lemma length_decimal_le: "n < 10 ^ Suc k \<Longrightarrow> length (decimal n) \<le> Suc k"
proof (induction k arbitrary: n)
  case 0
  then show ?case by (subst decimal.simps) simp
next
  case (Suc k)
  show ?case
  proof (cases "n < 10")
    case True
    then show ?thesis by (subst decimal.simps) simp
  next
    case False
    from Suc.prems have "n div 10 < 10 ^ Suc k" by (simp add: less_mult_imp_div_less)
    from Suc.IH [OF this] False show ?thesis by (subst decimal.simps) simp
  qed
qed

lemma format_04d_props:
  "4 \<le> length (format_04d n)"
  "\<forall>c \<in> set (format_04d n). digit_val c \<noteq> None"
  "digits_val 0 (format_04d n) = Some n"
  "n < 10000 \<Longrightarrow> length (format_04d n) = 4"
proof -
  show "4 \<le> length (format_04d n)" by (simp add: format_04d_def)
  show "\<forall>c \<in> set (format_04d n). digit_val c \<noteq> None"
    using all_digits_decimal [of n] by (auto simp: format_04d_def digit_val_def)
  show "digits_val 0 (format_04d n) = Some n"
    by (simp add: format_04d_def digits_val_zeros digits_val_decimal)
  show "length (format_04d n) = 4" if "n < 10000"
    using length_decimal_le [of n 3] that by (simp add: format_04d_def)
qed

lemma decimal_not_Nil: "decimal n \<noteq> []"
  by (subst decimal.simps) simp

lemma length_decimal_gt: "10 ^ k \<le> n \<Longrightarrow> k < length (decimal n)"
proof (induction k arbitrary: n)
  case 0
  then show ?case using decimal_not_Nil [of n] by (cases "decimal n") simp_all
next
  case (Suc k)
  then have "\<not> n < 10"
  proof -
    have "(10::nat) * 1 \<le> 10 * 10 ^ k" by (intro mult_le_mono2) simp
    also have "\<dots> = 10 ^ Suc k" by simp
    also note Suc.prems
    finally show ?thesis by simp
  qed
  moreover from Suc.prems have "10 ^ k \<le> n div 10" by (simp add: less_eq_div_iff_mult_less_eq)
  from Suc.IH [OF this] have "k < length (decimal (n div 10))" .
  ultimately show ?case by (subst decimal.simps) simp
qed

lemma hd_decimal: "0 < n \<Longrightarrow> hd (decimal n) \<noteq> CHR ''0''"
proof (induction n rule: decimal.induct)
  case (1 n)
  show ?case
  proof (cases "n < 10")
    case True
    have "digit_val (char_of (48 + n)) = Some n" using True by (rule digit_val_char_of)
    moreover have "digit_val (CHR ''0'') = Some 0" by (simp add: digit_val_def)
    ultimately have "char_of (48 + n) \<noteq> CHR ''0''" using \<open>0 < n\<close> by auto
    with True show ?thesis by (subst decimal.simps) simp
  next
    case False
    then have "0 < n div 10" by simp
    with 1 False have "hd (decimal (n div 10)) \<noteq> CHR ''0''" by simp
    with False decimal_not_Nil [of "n div 10"] show ?thesis
      by (subst decimal.simps) simp
  qed
qed

lemma format_04d_large: "10000 \<le> n \<Longrightarrow> format_04d n = decimal n"
  using length_decimal_gt [of 4 n] by (simp add: format_04d_def)

lemma char_of_digits: "char_of (48::nat) = CHR ''0''" "char_of (49::nat) = CHR ''1''"
  by code_simp+

lemma format_04d_10000: "format_04d 10000 = ''10000''"
proof -
  have "decimal 10000 = ''10000''"
    by (simp add: decimal.simps [of 10000] decimal.simps [of 1000] decimal.simps [of 100]
        decimal.simps [of 10] decimal.simps [of "Suc 0"] char_of_digits)
  then show ?thesis by (simp add: format_04d_def)
qed

text \<open>
  Claim C8, as amended. The record that a commit appends to the ledger carries the
  cities, the start date, the end date (the dates as their ISO strings, which a date
  stands for here) and the total price that were passed in. Its booking id is \<open>BK-\<close>
  followed by the decimal digits of the number of records persisted before plus one,
  padded with zeros on the left to four digits: exactly four digits while that number is
  below 10000, and the digits of the number with no leading zero from 10000 on.
\<close>

theorem create_booking_record:
  assumes "create_booking st now country cs sd ed fls hts price pay pres = (rec, st')"
  shows "bookings st' = bookings st @ [rec] \<and>
    br_cities rec = cs \<and> br_start_date rec = sd \<and> br_end_date rec = ed \<and>
    br_total_price_idr rec = price \<and>
    (\<exists>ds. booking_id rec = ''BK-'' @ ds \<and>
          (\<forall>c \<in> set ds. digit_val c \<noteq> None) \<and>
          digits_val 0 ds = Some (length (bookings st) + 1) \<and>
          (if length (bookings st) + 1 < 10000 then length ds = 4 else hd ds \<noteq> CHR ''0''))"
proof -
  let ?n = "length (bookings st) + 1"
  let ?ds = "format_04d ?n"
  from assms have r: "bookings st' = bookings st @ [rec]" "br_cities rec = cs"
    "br_start_date rec = sd" "br_end_date rec = ed" "br_total_price_idr rec = price"
    "booking_id rec = ''BK-'' @ ?ds"
    by (auto simp: create_booking_def Let_def)
  have d: "(\<forall>c \<in> set ?ds. digit_val c \<noteq> None) \<and> digits_val 0 ?ds = Some ?n"
    using format_04d_props(2,3) [of ?n] by blast
  have l: "if ?n < 10000 then length ?ds = 4 else hd ?ds \<noteq> CHR ''0''"
  proof (cases "?n < 10000")
    case True
    then show ?thesis using format_04d_props(4) [of ?n] by simp
  next
    case False
    then have "format_04d ?n = decimal ?n" by (intro format_04d_large) simp
    with False hd_decimal [of ?n] show ?thesis by simp
  qed
  from r d l show ?thesis by blast
qed

text \<open>
  The claim as stated, a four-digit id for every commit, fails on a ledger of 9999
  records: the format \<open>04d\<close> is a minimum width, and the id has five digits.
\<close>

theorem create_booking_id_counterexample:
  "booking_id (fst (create_booking (ex_store\<lparr>bookings := replicate 9999 ex_booking\<rparr>) ''t1''
      (Some ''Japan'') [''Tokyo''] 739261 739265 [] [] 100 ex_payment
      (simulate_payment ''u1'' 100 ex_payment))) = ''BK-10000''"
  by (simp add: create_booking_def Let_def format_04d_10000)

theorem create_booking_record_witness:
  "\<exists>rec st'.
     create_booking ex_store ''t1'' (Some ''Japan'') [''Tokyo'', ''Kyoto''] 739261 739265
       [flights ex_store ! 1, flights ex_store ! 2] [] 2160000 ex_payment
       (simulate_payment ''u1'' 2160000 ex_payment) = (rec, st') \<and>
     bookings st' = [rec] \<and> br_cities rec = [''Tokyo'', ''Kyoto''] \<and>
     br_start_date rec = 739261 \<and> br_end_date rec = 739265 \<and>
     br_total_price_idr rec = 2160000 \<and> booking_id rec = ''BK-0001''"
proof -
  obtain rec st' where c: "create_booking ex_store ''t1'' (Some ''Japan'') [''Tokyo'', ''Kyoto'']
       739261 739265 [flights ex_store ! 1, flights ex_store ! 2] [] 2160000 ex_payment
       (simulate_payment ''u1'' 2160000 ex_payment) = (rec, st')"
    by (cases "create_booking ex_store ''t1'' (Some ''Japan'') [''Tokyo'', ''Kyoto'']
       739261 739265 [flights ex_store ! 1, flights ex_store ! 2] [] 2160000 ex_payment
       (simulate_payment ''u1'' 2160000 ex_payment)")
  note t = create_booking_record [OF c]
  from t have a: "bookings st' = [rec]" "br_cities rec = [''Tokyo'', ''Kyoto'']"
    "br_start_date rec = 739261" "br_end_date rec = 739265" "br_total_price_idr rec = 2160000"
    by (simp_all add: ex_store_def)
  from t obtain ds where ds: "booking_id rec = ''BK-'' @ ds" "digits_val 0 ds = Some 1"
    "length ds = 4" "\<forall>c \<in> set ds. digit_val c \<noteq> None"
    by (auto simp: ex_store_def)
  have e: "format_04d (Suc 0) = ''0001''" by code_simp
  from c have "booking_id rec = ''BK-0001''"
    by (auto simp: create_booking_def Let_def ex_store_def e)
  with c a show ?thesis by blast
qed

subsection \<open>Evaluation of the example data\<close>

lemma ex_store_lists:
  "flights ex_store = [flight_F1, flight_F2, flight_F3]" "hotels ex_store = [hotel_H1, hotel_H2]"
  by (simp_all add: ex_store_def flight_F1_def flight_F2_def flight_F3_def hotel_H1_def hotel_H2_def)

lemma ex_prices:
  "int_get (base_price_idr flight_F1) = 700000" "int_get (base_price_idr flight_F2) = 500000"
  "int_get (base_price_idr flight_F3) = 400000" "int_get (base_price_idr flight_N1) = 700000"
  "int_get (base_price_idr flight_N2) = 500000"
  "int_get (price_per_night_idr hotel_H1) = 100000" "int_get (price_per_night_idr hotel_H2) = 300000"
  by (simp_all add: flight_F1_def flight_F2_def flight_F3_def flight_N1_def flight_N2_def
      hotel_H1_def hotel_H2_def ex_flight_def ex_hotel_def int_get_def)

lemma ex_dates:
  "fromisoformat ''2025-01-01'' = Some 739252"
  "fromisoformat ''2025-01-10'' = Some 739261"
  "fromisoformat ''2025-01-11'' = Some 739262"
  "fromisoformat ''2025-01-13'' = Some 739264"
  "fromisoformat ''2025-01-14'' = Some 739265"
  "fromisoformat ''2025-12-31'' = Some 739616"
  by (simp_all add: fromisoformat_def digit_val_def days_in_month_def is_leap_def ymd2ord_def
      days_before_year_def days_before_month_def upt_rec [of _ "numeral _"] upt_rec [of _ 1])

lemma ex_strings:
  "str_lower ''Jakarta'' = ''jakarta''" "str_lower (str_strip ''Jakarta'') = ''jakarta''"
  "str_lower ''Tokyo'' = ''tokyo''" "str_lower (str_strip ''Tokyo'') = ''tokyo''"
  "str_lower ''Kyoto'' = ''kyoto''" "str_lower (str_strip ''Kyoto'') = ''kyoto''"
  "str_lower ''Japan'' = ''japan''" "str_lower (str_strip ''Japan'') = ''japan''"
  "str_lower ''luxury'' = ''luxury''" "str_lower (str_strip ''luxury'') = ''luxury''"
  "str_lower ''mid-range'' = ''mid-range''" "str_lower (str_strip ''mid-range'') = ''mid-range''"
  "str_lower ''backpacker'' = ''backpacker''" "str_lower (str_strip ''backpacker'') = ''backpacker''"
  by code_simp+

lemma ex_floats:
  "int_mul_float 1800000 float_0_2 = Inr 360000"
  "int_mul_float 1000000 float_1_2 = Inr 1200000"
  by code_simp+

lemma ex_nights:
  "split_nights_across_cities [''Tokyo'', ''Kyoto''] 5 ''Tokyo'' = Some 3"
  "split_nights_across_cities [''Tokyo'', ''Kyoto''] 5 ''Kyoto'' = Some 2"
  by (simp_all add: split_nights_across_cities_def)

lemma ex_hotels_tokyo:
  "find_hotels_for_city (hotels ex_store) ''Tokyo'' (Some ''Japan'') (PyStr ''luxury'') 739261 739263 = Inr []"
  "find_hotels_for_city (hotels ex_store) ''Tokyo'' (Some ''Japan'') (PyStr ''mid-range'') 739261 739263
     = Inr [hotel_H1]"
  "find_hotels_for_city (hotels ex_store) ''Kyoto'' (Some ''Japan'') (PyStr ''luxury'') 739264 739265
     = Inr [hotel_H2]"
  by (simp_all add: ex_store_lists hotel_H1_def hotel_H2_def ex_hotel_def hotel_available_def
      str_get_def int_get_def parse_date_def ex_dates ex_strings)

lemma ex_choose:
  "choose_hotel (hotels ex_store) ''Tokyo'' (Some ''Japan'') (PyStr ''luxury'') 739261 739263
     = Inr hotel_H1"
  "choose_hotel (hotels ex_store) ''Kyoto'' (Some ''Japan'') (PyStr ''luxury'') 739264 739265
     = Inr hotel_H2"
  by (simp_all add: choose_hotel_def ex_hotels_tokyo fallback_style_def py_min_def)

lemma ex_book_hotels:
  "book_hotels (hotels ex_store) (split_nights_across_cities [''Tokyo'', ''Kyoto''] 5)
     (Some ''Japan'') (PyStr ''luxury'') 739261 0 [''Tokyo'', ''Kyoto''] =
   Inr [\<lparr>ch_hotel = hotel_H1, ch_nights = 3, ch_stay_start_date = 739261,
          ch_stay_end_date = 739263\<rparr>,
        \<lparr>ch_hotel = hotel_H2, ch_nights = 2, ch_stay_start_date = 739264,
          ch_stay_end_date = 739265\<rparr>]"
  by (simp add: ex_nights ex_choose Let_def)

lemma ex_options:
  "flight_options (flights ex_store) ''Jakarta'' ''Tokyo'' 739261 = [flight_F1, flight_F2]"
  "flight_options (flights ex_store) ''Kyoto'' ''Jakarta'' 739265 = [flight_F3]"
  by (simp_all add: ex_store_lists flight_F1_def flight_F2_def flight_F3_def ex_flight_def
      flight_options_def on_route_def has_seats_def days_from_def parse_date_def str_get_def
      int_get_def ex_dates ex_strings)

lemma near_options:
  "flight_options (flights near_store) ''Jakarta'' ''Tokyo'' 739261 =
     [flight_N1, flight_N2]"
  "flight_options (flights near_store) ''Kyoto'' ''Jakarta'' 739265 = [flight_F3]"
  by (simp_all add: near_store_def flight_N1_def flight_N2_def flight_F3_def ex_flight_def flight_options_def on_route_def has_seats_def
      days_from_def parse_date_def str_get_def int_get_def ex_dates ex_strings)

lemma near_resolve:
  "resolve near_store ex_itinerary ex_prefs =
     Inr \<lparr>rs_cities = [''Tokyo'', ''Kyoto''], rs_start_date = 739261, rs_end_date = 739265,
          rs_flights = [flight_N2, flight_F3],
          rs_hotels =
            [\<lparr>ch_hotel = hotel_H1, ch_nights = 3, ch_stay_start_date = 739261,
               ch_stay_end_date = 739263\<rparr>,
             \<lparr>ch_hotel = hotel_H2, ch_nights = 2, ch_stay_start_date = 739264,
               ch_stay_end_date = 739265\<rparr>],
          rs_costs = \<lparr>outbound_flight = 500000, return_flight = 400000, total_flights = 900000,
            accommodation = 900000, buffer_activities_transport = 360000, grand_total = 2160000\<rparr>,
          rs_budget_warning = True\<rparr>"
proof -
  have h: "hotels near_store = hotels ex_store" by (simp add: near_store_def)
  show ?thesis
    by (simp add: resolve_def read_prefs_def ex_prefs_def ex_itinerary_def ex_dates
        find_flights_for_trip_def near_options py_min_def h ex_book_hotels compute_costs_def
        Let_def ex_prices ex_floats del: book_hotels.simps)
qed

subsection \<open>Selection by \<open>min\<close> and the shape of a resolution\<close>

lemma min_from_first:
  "\<exists>i < length (b # xs). (b # xs) ! i = min_from key b xs \<and>
     (\<forall>j < length (b # xs). key (min_from key b xs) \<le> key ((b # xs) ! j)) \<and>
     (\<forall>j < i. key (min_from key b xs) < key ((b # xs) ! j))"
proof (induction xs arbitrary: b)
  case Nil
  then show ?case by simp
next
  case (Cons x xs)
  show ?case
  proof (cases "key x < key b")
    case True
    from Cons.IH [of x] obtain i where i: "i < length (x # xs)"
      "(x # xs) ! i = min_from key x xs"
      "\<forall>j < length (x # xs). key (min_from key x xs) \<le> key ((x # xs) ! j)"
      "\<forall>j < i. key (min_from key x xs) < key ((x # xs) ! j)"
      by blast
    from i(3) have le_x: "key (min_from key x xs) \<le> key x" by auto
    have a: "\<forall>j < length (b # x # xs). key (min_from key x xs) \<le> key ((b # x # xs) ! j)"
    proof (intro allI impI)
      fix j assume "j < length (b # x # xs)"
      then show "key (min_from key x xs) \<le> key ((b # x # xs) ! j)"
        using i(3) le_x True by (cases j) auto
    qed
    have b: "\<forall>j < Suc i. key (min_from key x xs) < key ((b # x # xs) ! j)"
    proof (intro allI impI)
      fix j assume "j < Suc i"
      then show "key (min_from key x xs) < key ((b # x # xs) ! j)"
        using i(4) le_x True by (cases j) auto
    qed
    from i(1,2) a b True show ?thesis
      by (intro exI [of _ "Suc i"]) simp
  next
    case False
    from Cons.IH [of b] obtain i where i: "i < length (b # xs)"
      "(b # xs) ! i = min_from key b xs"
      "\<forall>j < length (b # xs). key (min_from key b xs) \<le> key ((b # xs) ! j)"
      "\<forall>j < i. key (min_from key b xs) < key ((b # xs) ! j)"
      by blast
    from i(3) have le_b: "key (min_from key b xs) \<le> key b" by auto
    show ?thesis
    proof (cases i)
      case 0
      with i(2) have m: "min_from key b xs = b" by simp
      have "\<forall>j < length (b # x # xs). key b \<le> key ((b # x # xs) ! j)"
      proof (intro allI impI)
        fix j assume j: "j < length (b # x # xs)"
        show "key b \<le> key ((b # x # xs) ! j)"
        proof (cases j)
          case 0 then show ?thesis by simp
        next
          case (Suc j')
          show ?thesis
          proof (cases j')
            case 0 with Suc False show ?thesis by simp
          next
            case (Suc j'')
            with \<open>j = Suc j'\<close> j i(3) [rule_format, of "Suc j''"] m show ?thesis by simp
          qed
        qed
      qed
      with False m show ?thesis by (intro exI [of _ 0]) simp
    next
      case (Suc i')
      have a: "\<forall>j < length (b # x # xs). key (min_from key b xs) \<le> key ((b # x # xs) ! j)"
      proof (intro allI impI)
        fix j assume j: "j < length (b # x # xs)"
        show "key (min_from key b xs) \<le> key ((b # x # xs) ! j)"
        proof (cases j)
          case 0 with le_b show ?thesis by simp
        next
          case (Suc j')
          show ?thesis
          proof (cases j')
            case 0 with Suc False le_b show ?thesis by simp
          next
            case (Suc j'')
            with \<open>j = Suc j'\<close> j i(3) [rule_format, of "Suc j''"] show ?thesis by simp
          qed
        qed
      qed
      have lt_b: "key (min_from key b xs) < key b"
        using i(4) [rule_format, of 0] Suc by simp
      have b: "\<forall>j < Suc i. key (min_from key b xs) < key ((b # x # xs) ! j)"
      proof (intro allI impI)
        fix j assume j: "j < Suc i"
        show "key (min_from key b xs) < key ((b # x # xs) ! j)"
        proof (cases j)
          case 0 with lt_b show ?thesis by simp
        next
          case (Suc j')
          show ?thesis
          proof (cases j')
            case 0 with Suc False lt_b show ?thesis by simp
          next
            case (Suc j'')
            with \<open>j = Suc j'\<close> j i(4) [rule_format, of "Suc j''"] \<open>i = Suc i'\<close> show ?thesis by simp
          qed
        qed
      qed
      from i(1,2) a b False Suc show ?thesis
        by (intro exI [of _ "Suc i"]) simp
    qed
  qed
qed

lemma py_min_first:
  assumes "py_min key xs = Some m"
  shows "\<exists>i < length xs. xs ! i = m \<and> (\<forall>j < length xs. key m \<le> key (xs ! j)) \<and>
           (\<forall>j < i. key m < key (xs ! j))"
proof (cases xs)
  case Nil
  with assms show ?thesis by (simp add: py_min_def)
next
  case (Cons b rest)
  with assms have "m = min_from key b rest" by (simp add: py_min_def)
  with min_from_first [of b rest key] Cons show ?thesis by simp
qed

lemma py_min_Some: "xs \<noteq> [] \<Longrightarrow> \<exists>m. py_min key xs = Some m"
  by (cases xs) (simp_all add: py_min_def)

lemma py_min_None: "py_min key xs = None \<longleftrightarrow> xs = []"
  by (cases xs) (simp_all add: py_min_def)

lemma filter_nth_source:
  "k < length (filter P xs) \<Longrightarrow>
   \<exists>i < length xs. xs ! i = filter P xs ! k \<and> filter P (take i xs) = take k (filter P xs)"
proof (induction xs arbitrary: k)
  case Nil
  then show ?case by simp
next
  case (Cons x xs)
  show ?case
  proof (cases "P x")
    case True
    show ?thesis
    proof (cases k)
      case 0
      with True show ?thesis by (intro exI [of _ 0]) simp
    next
      case (Suc k')
      with Cons.prems True have "k' < length (filter P xs)" by simp
      from Cons.IH [OF this] obtain i where "i < length xs" "xs ! i = filter P xs ! k'"
        "filter P (take i xs) = take k' (filter P xs)" by blast
      with True Suc show ?thesis by (intro exI [of _ "Suc i"]) simp
    qed
  next
    case False
    with Cons.prems have "k < length (filter P xs)" by simp
    from Cons.IH [OF this] obtain i where "i < length xs" "xs ! i = filter P xs ! k"
      "filter P (take i xs) = take k (filter P xs)" by blast
    with False show ?thesis by (intro exI [of _ "Suc i"]) simp
  qed
qed

lemma py_min_filter_first:
  assumes "py_min key (filter P xs) = Some m"
  shows "\<exists>i < length xs. xs ! i = m \<and> P m \<and>
           (\<forall>j < length xs. P (xs ! j) \<longrightarrow> key m \<le> key (xs ! j)) \<and>
           (\<forall>j < i. P (xs ! j) \<longrightarrow> key m < key (xs ! j))"
proof -
  from py_min_first [OF assms] obtain k where k: "k < length (filter P xs)"
    "filter P xs ! k = m" "\<forall>j < length (filter P xs). key m \<le> key (filter P xs ! j)"
    "\<forall>j < k. key m < key (filter P xs ! j)" by blast
  from filter_nth_source [OF k(1)] obtain i where i: "i < length xs" "xs ! i = filter P xs ! k"
    "filter P (take i xs) = take k (filter P xs)" by blast
  from k(1,2) have pm: "P m" using nth_mem [of k "filter P xs"] by auto
  have le: "\<forall>j < length xs. P (xs ! j) \<longrightarrow> key m \<le> key (xs ! j)"
  proof (intro allI impI)
    fix j assume "j < length xs" "P (xs ! j)"
    then have "xs ! j \<in> set (filter P xs)" by simp
    then obtain j' where "j' < length (filter P xs)" "filter P xs ! j' = xs ! j"
      unfolding in_set_conv_nth by blast
    with k(3) show "key m \<le> key (xs ! j)" by auto
  qed
  have lt: "\<forall>j < i. P (xs ! j) \<longrightarrow> key m < key (xs ! j)"
  proof (intro allI impI)
    fix j assume j: "j < i" "P (xs ! j)"
    with i(1) have "xs ! j \<in> set (filter P (take i xs))"
      by (auto simp: in_set_conv_nth intro!: exI [of _ j])
    with i(3) have "xs ! j \<in> set (take k (filter P xs))" by simp
    then obtain j' where "j' < k" "j' < length (filter P xs)" "filter P xs ! j' = xs ! j"
      unfolding in_set_conv_nth by auto
    with k(4) show "key m < key (xs ! j)" by auto
  qed
  from i(1,2) k(2) pm le lt show ?thesis by blast
qed

lemma read_prefs_Inr:
  "read_prefs prefs = Inr (orig, style, budget, days, start) \<longleftrightarrow>
     origin_city prefs = Some orig \<and> travel_style prefs = Some style \<and>
     budget_idr prefs = Some budget \<and> trip_length_days prefs = Some days \<and>
     (\<exists>s. start_date prefs = Some (PyStr s) \<and> fromisoformat s = Some start)"
  by (auto simp: read_prefs_def split: option.splits pyval.splits)

lemma find_flights_Inr:
  assumes "find_flights_for_trip fls orig a b d1 d2 = Inr (outs, rets)" and "outs \<noteq> []"
  shows "\<exists>s. orig = PyStr s \<and> outs = flight_options fls s a d1 \<and> rets = flight_options fls b s d2"
  using assms by (auto simp: find_flights_for_trip_def split: pyval.splits if_splits)

lemma resolve_Inr:
  assumes "resolve st chosen prefs = Inr r"
  shows "\<exists>orig style budget n start cs outbound returning.
     origin_city prefs = Some (PyStr orig) \<and> travel_style prefs = Some style \<and>
     budget_idr prefs = Some budget \<and> trip_length_days prefs = Some (PyInt n) \<and>
     (\<exists>s. start_date prefs = Some (PyStr s) \<and> fromisoformat s = Some start) \<and>
     cities chosen = Some cs \<and> cs \<noteq> [] \<and>
     py_min (\<lambda>f. int_get (base_price_idr f))
       (flight_options (flights st) orig (hd cs) start) = Some outbound \<and>
     py_min (\<lambda>f. int_get (base_price_idr f))
       (flight_options (flights st) (last cs) orig (start + (n - 1))) = Some returning \<and>
     book_hotels (hotels st) (split_nights_across_cities cs n) (destination_country chosen)
       style start 0 cs = Inr (rs_hotels r) \<and>
     compute_costs outbound returning (rs_hotels r) budget =
       Inr (rs_costs r, rs_budget_warning r) \<and>
     rs_cities r = cs \<and> rs_start_date r = start \<and> rs_end_date r = start + (n - 1) \<and>
     rs_flights r = [outbound, returning]"
proof -
  from assms obtain orig0 style budget days start where
    rp: "read_prefs prefs = Inr (orig0, style, budget, days, start)"
    by (auto simp: resolve_def split: sum.splits)
  from assms rp obtain n where days: "days = PyInt n"
    by (auto simp: resolve_def split: pyval.splits)
  define cs where "cs = (case cities chosen of None \<Rightarrow> [] | Some l \<Rightarrow> l)"
  from assms rp days have ne: "cs \<noteq> []"
    by (auto simp: resolve_def Let_def cs_def split: if_splits)
  then have c: "cities chosen = Some cs"
    by (auto simp: cs_def split: option.splits)
  from assms rp days ne obtain outs rets where
    ff: "find_flights_for_trip (flights st) orig0 (hd cs) (last cs) start (start + (n - 1)) = Inr (outs, rets)"
    by (auto simp: resolve_def Let_def cs_def [symmetric] split: sum.splits)
  from assms rp days ne ff have one: "outs \<noteq> []" "rets \<noteq> []"
    by (auto simp: resolve_def Let_def cs_def [symmetric] split: if_splits)
  from find_flights_Inr [OF ff one(1)] obtain orig where
    o: "orig0 = PyStr orig" "outs = flight_options (flights st) orig (hd cs) start"
       "rets = flight_options (flights st) (last cs) orig (start + (n - 1))"
    by blast
  from assms rp days ne ff one obtain outbound returning hs cb w where
    m: "py_min (\<lambda>f. int_get (base_price_idr f)) outs = Some outbound"
       "py_min (\<lambda>f. int_get (base_price_idr f)) rets = Some returning"
       "book_hotels (hotels st) (split_nights_across_cities cs n) (destination_country chosen)
          style start 0 cs = Inr hs"
       "compute_costs outbound returning hs budget = Inr (cb, w)"
       "r = \<lparr>rs_cities = cs, rs_start_date = start, rs_end_date = start + (n - 1),
             rs_flights = [outbound, returning], rs_hotels = hs, rs_costs = cb,
             rs_budget_warning = w\<rparr>"
    by (auto simp: resolve_def Let_def cs_def [symmetric] split: sum.splits option.splits)
  from rp have p: "origin_city prefs = Some orig0" "travel_style prefs = Some style"
    "budget_idr prefs = Some budget" "trip_length_days prefs = Some days"
    "\<exists>s. start_date prefs = Some (PyStr s) \<and> fromisoformat s = Some start"
    by (simp_all add: read_prefs_Inr)
  from p o days c ne m show ?thesis by auto
qed

subsection \<open>Flight search\<close>

lemma filter_take_prefix: "\<exists>n. filter P (take m xs) = take n (filter P xs)"
proof (induction xs arbitrary: m)
  case Nil
  then show ?case by simp
next
  case (Cons x xs)
  show ?case
  proof (cases m)
    case 0
    then show ?thesis by (intro exI [of _ 0]) simp
  next
    case (Suc m')
    from Cons.IH [of m'] obtain n where n: "filter P (take m' xs) = take n (filter P xs)" by blast
    show ?thesis
    proof (cases "P x")
      case True
      with n Suc show ?thesis by (intro exI [of _ "Suc n"]) simp
    next
      case False
      with n Suc show ?thesis by (intro exI [of _ n]) simp
    qed
  qed
qed

lemma sorted_take_drop_le:
  assumes "sorted (map f l)"
  shows "\<forall>x \<in> set (take n l). \<forall>y \<in> set (drop n l). f x \<le> f y"
proof -
  from assms have "sorted (map f (take n l) @ map f (drop n l))"
    by (simp only: map_append [symmetric] append_take_drop_id)
  then show ?thesis by (auto simp: sorted_append)
qed

text \<open>
  Claim C5, as amended. When no flight with seats on the route matches the desired date,
  the candidate list of the route is made of the dated flights with seats on it that are
  nearest by absolute day difference, five of them or all when there are fewer, in the
  order of that difference; flights at the same difference keep their catalog order, and
  among them the earlier ones of the catalog are taken. The resolver selects by price from
  this list: with exactly two candidates, one day and three days from the desired date,
  it selects the one-day candidate unless the three-day candidate is strictly cheaper,
  and then it selects the three-day candidate.
\<close>

theorem flight_options_fallback:
  assumes "filter (\<lambda>f. on_route a b f \<and> has_seats f \<and> parse_date (fl_date f) = Some d) fls = []"
  shows "length (flight_options fls a b d) =
      min 5 (length (filter (\<lambda>f. on_route a b f \<and> has_seats f \<and> parse_date (fl_date f) \<noteq> None) fls)) \<and>
    sorted (map (days_from d) (flight_options fls a b d)) \<and>
    (\<exists>rest.
       set (flight_options fls a b d @ rest) =
         set (filter (\<lambda>f. on_route a b f \<and> has_seats f \<and> parse_date (fl_date f) \<noteq> None) fls) \<and>
       length (flight_options fls a b d @ rest) =
         length (filter (\<lambda>f. on_route a b f \<and> has_seats f \<and> parse_date (fl_date f) \<noteq> None) fls) \<and>
       (\<forall>x \<in> set (flight_options fls a b d). \<forall>y \<in> set rest. days_from d x \<le> days_from d y)) \<and>
    (\<forall>k. \<exists>n. filter (\<lambda>f. days_from d f = k) (flight_options fls a b d) =
       take n (filter (\<lambda>f. days_from d f = k)
         (filter (\<lambda>f. on_route a b f \<and> has_seats f \<and> parse_date (fl_date f) \<noteq> None) fls))) \<and>
    (\<forall>x y.
       (filter (\<lambda>f. on_route a b f \<and> has_seats f \<and> parse_date (fl_date f) \<noteq> None) fls = [x, y] \<or>
        filter (\<lambda>f. on_route a b f \<and> has_seats f \<and> parse_date (fl_date f) \<noteq> None) fls = [y, x]) \<and>
       days_from d x = 1 \<and> days_from d y = 3 \<longrightarrow>
       py_min (\<lambda>f. int_get (base_price_idr f)) (flight_options fls a b d) =
         Some (if int_get (base_price_idr y) < int_get (base_price_idr x) then y else x))"
proof -
  let ?dated = "filter (\<lambda>f. on_route a b f \<and> has_seats f \<and> parse_date (fl_date f) \<noteq> None) fls"
  let ?sorted = "sort_key (days_from d) ?dated"
  have o: "flight_options fls a b d = take 5 ?sorted"
    using assms by (simp add: flight_options_def)
  have l: "length (take 5 ?sorted) = min 5 (length ?dated)" by simp
  have s: "sorted (map (days_from d) ?sorted)" by (rule sorted_sort_key)
  then have s5: "sorted (map (days_from d) (take 5 ?sorted))"
    by (simp only: take_map [symmetric] sorted_wrt_take)
  have r: "set (take 5 ?sorted @ drop 5 ?sorted) = set ?dated \<and>
        length (take 5 ?sorted @ drop 5 ?sorted) = length ?dated \<and>
        (\<forall>x \<in> set (take 5 ?sorted). \<forall>y \<in> set (drop 5 ?sorted). days_from d x \<le> days_from d y)"
    using sorted_take_drop_le [OF s, of 5] by (simp only: append_take_drop_id set_sort length_sort)
  have st: "\<forall>k. \<exists>n. filter (\<lambda>f. days_from d f = k) (take 5 ?sorted) =
       take n (filter (\<lambda>f. days_from d f = k) ?dated)"
  proof
    fix k
    from filter_take_prefix [of "\<lambda>f. days_from d f = k" 5 ?sorted]
    obtain n where "filter (\<lambda>f. days_from d f = k) (take 5 ?sorted) =
        take n (filter (\<lambda>f. days_from d f = k) ?sorted)" by blast
    then show "\<exists>n. filter (\<lambda>f. days_from d f = k) (take 5 ?sorted) =
       take n (filter (\<lambda>f. days_from d f = k) ?dated)"
      by (auto simp: sort_key_stable)
  qed
  have two: "\<forall>x y. (?dated = [x, y] \<or> ?dated = [y, x]) \<and> days_from d x = 1 \<and> days_from d y = 3 \<longrightarrow>
       py_min (\<lambda>f. int_get (base_price_idr f)) (take 5 ?sorted) =
         Some (if int_get (base_price_idr y) < int_get (base_price_idr x) then y else x)"
  proof (intro allI impI)
    fix x y
    assume h: "(?dated = [x, y] \<or> ?dated = [y, x]) \<and> days_from d x = 1 \<and> days_from d y = 3"
    then have "?sorted = [x, y]" by auto
    then show "py_min (\<lambda>f. int_get (base_price_idr f)) (take 5 ?sorted) =
         Some (if int_get (base_price_idr y) < int_get (base_price_idr x) then y else x)"
      by (simp add: py_min_def)
  qed
  from l s5 r st two show ?thesis
    unfolding o by blast
qed

text \<open>
  The claim as stated fails where the farther candidate is the cheaper one: with flights
  one day (700000) and three days (500000) after the start date, the resolution books the
  three-day flight.
\<close>

theorem flight_options_fallback_counterexample:
  "flight_options (flights near_store) ''Jakarta'' ''Tokyo'' 739261 = [flight_N1, flight_N2] \<and>
   days_from 739261 flight_N1 = 1 \<and> days_from 739261 flight_N2 = 3 \<and>
   map_sum id rs_flights (resolve near_store ex_itinerary ex_prefs) = Inr [flight_N2, flight_F3]"
  by (simp add: near_options near_resolve days_from_def parse_date_def flight_N1_def flight_N2_def
      ex_flight_def ex_dates)

theorem flight_options_fallback_witness:
  "filter (\<lambda>f. on_route ''Jakarta'' ''Tokyo'' f \<and> has_seats f \<and>
             parse_date (fl_date f) = Some 739261) (flights near_store) = [] \<and>
   length (flight_options (flights near_store) ''Jakarta'' ''Tokyo'' 739261) = 2 \<and>
   sorted (map (days_from 739261) (flight_options (flights near_store) ''Jakarta'' ''Tokyo'' 739261)) \<and>
   py_min (\<lambda>f. int_get (base_price_idr f))
     (flight_options (flights near_store) ''Jakarta'' ''Tokyo'' 739261) = Some flight_N2"
proof -
  have d: "filter (\<lambda>f. on_route ''Jakarta'' ''Tokyo'' f \<and> has_seats f \<and>
             parse_date (fl_date f) \<noteq> None) (flights near_store) = [flight_N1, flight_N2]"
    by (simp add: near_store_def flight_N1_def flight_N2_def flight_F3_def ex_flight_def
        on_route_def has_seats_def parse_date_def str_get_def int_get_def ex_dates ex_strings)
  have e: "filter (\<lambda>f. on_route ''Jakarta'' ''Tokyo'' f \<and> has_seats f \<and>
             parse_date (fl_date f) = Some 739261) (flights near_store) = []"
    by (simp add: near_store_def flight_N1_def flight_N2_def flight_F3_def ex_flight_def
        on_route_def has_seats_def parse_date_def str_get_def int_get_def ex_dates ex_strings)
  have k: "days_from 739261 flight_N1 = 1" "days_from 739261 flight_N2 = 3"
    by (simp_all add: days_from_def parse_date_def flight_N1_def flight_N2_def ex_flight_def ex_dates)
  note t = flight_options_fallback [OF e]
  from t have "length (flight_options (flights near_store) ''Jakarta'' ''Tokyo'' 739261) =
      min 5 (length (filter (\<lambda>f. on_route ''Jakarta'' ''Tokyo'' f \<and> has_seats f \<and>
             parse_date (fl_date f) \<noteq> None) (flights near_store)))"
    by (rule conjunct1)
  then have l: "length (flight_options (flights near_store) ''Jakarta'' ''Tokyo'' 739261) = 2"
    unfolding d by simp
  from t have s: "sorted (map (days_from 739261)
      (flight_options (flights near_store) ''Jakarta'' ''Tokyo'' 739261))"
    by blast
  from t have "\<forall>x y.
       (filter (\<lambda>f. on_route ''Jakarta'' ''Tokyo'' f \<and> has_seats f \<and> parse_date (fl_date f) \<noteq> None)
          (flights near_store) = [x, y] \<or>
        filter (\<lambda>f. on_route ''Jakarta'' ''Tokyo'' f \<and> has_seats f \<and> parse_date (fl_date f) \<noteq> None)
          (flights near_store) = [y, x]) \<and>
       days_from 739261 x = 1 \<and> days_from 739261 y = 3 \<longrightarrow>
       py_min (\<lambda>f. int_get (base_price_idr f))
         (flight_options (flights near_store) ''Jakarta'' ''Tokyo'' 739261) =
         Some (if int_get (base_price_idr y) < int_get (base_price_idr x) then y else x)"
    by blast
  from this [rule_format, of flight_N1 flight_N2, unfolded d] k
  have m: "py_min (\<lambda>f. int_get (base_price_idr f))
     (flight_options (flights near_store) ''Jakarta'' ''Tokyo'' 739261) = Some flight_N2"
    by (simp add: ex_prices)
  from e l s m show ?thesis by blast
qed

subsection \<open>Flight selection\<close>

lemma more_prices:
  "int_get (base_price_idr flight_T1) = 500000" "int_get (base_price_idr flight_T2) = 500000"
  "int_get (base_price_idr flight_P1) = 0" "int_get (base_price_idr flight_P2) = 0"
  by (simp_all add: flight_T1_def flight_T2_def flight_P1_def flight_P2_def ex_flight_def int_get_def)

lemma free_fields: "base_price_idr flight_P1 = None" "base_price_idr flight_P2 = Some 0"
  by (simp_all add: flight_P1_def flight_P2_def ex_flight_def)

lemma more_floats: "int_mul_float 1300000 float_0_2 = Inr 260000"
  by code_simp

lemma tie_options:
  "flight_options (flights tie_store) ''Jakarta'' ''Tokyo'' 739261 = [flight_T2, flight_T1]"
  "flight_options (flights tie_store) ''Kyoto'' ''Jakarta'' 739265 = [flight_F3]"
  by (simp_all add: tie_store_def flight_T1_def flight_T2_def flight_F3_def ex_flight_def
      flight_options_def on_route_def has_seats_def days_from_def parse_date_def str_get_def
      int_get_def ex_dates ex_strings)

lemma free_options:
  "flight_options (flights free_store) ''Jakarta'' ''Tokyo'' 739261 = [flight_P2, flight_P1]"
  "flight_options (flights free_store) ''Kyoto'' ''Jakarta'' 739265 = [flight_F3]"
  by (simp_all add: free_store_def flight_P1_def flight_P2_def flight_F3_def ex_flight_def
      flight_options_def on_route_def has_seats_def days_from_def parse_date_def str_get_def
      int_get_def ex_dates ex_strings)

lemma ex_resolve:
  "resolve ex_store ex_itinerary ex_prefs =
     Inr \<lparr>rs_cities = [''Tokyo'', ''Kyoto''], rs_start_date = 739261, rs_end_date = 739265,
          rs_flights = [flight_F2, flight_F3],
          rs_hotels =
            [\<lparr>ch_hotel = hotel_H1, ch_nights = 3, ch_stay_start_date = 739261,
               ch_stay_end_date = 739263\<rparr>,
             \<lparr>ch_hotel = hotel_H2, ch_nights = 2, ch_stay_start_date = 739264,
               ch_stay_end_date = 739265\<rparr>],
          rs_costs = \<lparr>outbound_flight = 500000, return_flight = 400000, total_flights = 900000,
            accommodation = 900000, buffer_activities_transport = 360000, grand_total = 2160000\<rparr>,
          rs_budget_warning = True\<rparr>"
  by (simp add: resolve_def read_prefs_def ex_prefs_def ex_itinerary_def ex_dates
      find_flights_for_trip_def ex_options py_min_def ex_book_hotels compute_costs_def
      Let_def ex_prices ex_floats del: book_hotels.simps)

lemma tie_resolve:
  "resolve tie_store ex_itinerary ex_prefs =
     Inr \<lparr>rs_cities = [''Tokyo'', ''Kyoto''], rs_start_date = 739261, rs_end_date = 739265,
          rs_flights = [flight_T2, flight_F3],
          rs_hotels =
            [\<lparr>ch_hotel = hotel_H1, ch_nights = 3, ch_stay_start_date = 739261,
               ch_stay_end_date = 739263\<rparr>,
             \<lparr>ch_hotel = hotel_H2, ch_nights = 2, ch_stay_start_date = 739264,
               ch_stay_end_date = 739265\<rparr>],
          rs_costs = \<lparr>outbound_flight = 500000, return_flight = 400000, total_flights = 900000,
            accommodation = 900000, buffer_activities_transport = 360000, grand_total = 2160000\<rparr>,
          rs_budget_warning = True\<rparr>"
proof -
  have h: "hotels tie_store = hotels ex_store" by (simp add: tie_store_def)
  show ?thesis
    by (simp add: resolve_def read_prefs_def ex_prefs_def ex_itinerary_def ex_dates
        find_flights_for_trip_def tie_options py_min_def h ex_book_hotels compute_costs_def
        Let_def ex_prices more_prices ex_floats del: book_hotels.simps)
qed

lemma free_resolve:
  "resolve free_store ex_itinerary ex_prefs =
     Inr \<lparr>rs_cities = [''Tokyo'', ''Kyoto''], rs_start_date = 739261, rs_end_date = 739265,
          rs_flights = [flight_P2, flight_F3],
          rs_hotels =
            [\<lparr>ch_hotel = hotel_H1, ch_nights = 3, ch_stay_start_date = 739261,
               ch_stay_end_date = 739263\<rparr>,
             \<lparr>ch_hotel = hotel_H2, ch_nights = 2, ch_stay_start_date = 739264,
               ch_stay_end_date = 739265\<rparr>],
          rs_costs = \<lparr>outbound_flight = 0, return_flight = 400000, total_flights = 400000,
            accommodation = 900000, buffer_activities_transport = 260000, grand_total = 1560000\<rparr>,
          rs_budget_warning = True\<rparr>"
proof -
  have h: "hotels free_store = hotels ex_store" by (simp add: free_store_def)
  show ?thesis
    by (simp add: resolve_def read_prefs_def ex_prefs_def ex_itinerary_def ex_dates
        find_flights_for_trip_def free_options py_min_def h ex_book_hotels compute_costs_def
        Let_def ex_prices more_prices ex_floats more_floats del: book_hotels.simps)
qed

lemma py_min_selects:
  assumes i: "i < length xs"
    and before: "\<forall>j < i. key (xs ! i) < key (xs ! j)"
    and all: "\<forall>j < length xs. key (xs ! i) \<le> key (xs ! j)"
  shows "py_min key xs = Some (xs ! i)"
proof -
  from i have "xs \<noteq> []" by auto
  from py_min_Some [OF this] obtain m where m: "py_min key xs = Some m" by blast
  from py_min_first [OF m] obtain k where k: "k < length xs" "xs ! k = m"
    "\<forall>j < length xs. key m \<le> key (xs ! j)" "\<forall>j < k. key m < key (xs ! j)" by blast
  have "k = i"
  proof (rule ccontr)
    assume "k \<noteq> i"
    then consider "k < i" | "i < k" by linarith
    then show False
    proof cases
      case 1
      with before have "key (xs ! i) < key (xs ! k)" by blast
      moreover from k(3) i have "key m \<le> key (xs ! i)" by blast
      ultimately show False using k(2) by simp
    next
      case 2
      with k(4) have "key m < key (xs ! i)" by blast
      moreover from all k(1) have "key (xs ! i) \<le> key (xs ! k)" by blast
      ultimately show False using k(2) by simp
    qed
  qed
  with m k(2) show ?thesis by simp
qed

lemma noprice_options:
  "flight_options (flights noprice_store) ''Jakarta'' ''Tokyo'' 739261 = [flight_P1]"
  "flight_options (flights noprice_store) ''Kyoto'' ''Jakarta'' 739265 = [flight_F3]"
  by (simp_all add: noprice_store_def flight_P1_def flight_F3_def ex_flight_def
      flight_options_def on_route_def has_seats_def days_from_def parse_date_def str_get_def
      int_get_def ex_dates ex_strings)

lemma noprice_resolve:
  "resolve noprice_store ex_itinerary ex_prefs =
     Inr \<lparr>rs_cities = [''Tokyo'', ''Kyoto''], rs_start_date = 739261, rs_end_date = 739265,
          rs_flights = [flight_P1, flight_F3],
          rs_hotels =
            [\<lparr>ch_hotel = hotel_H1, ch_nights = 3, ch_stay_start_date = 739261,
               ch_stay_end_date = 739263\<rparr>,
             \<lparr>ch_hotel = hotel_H2, ch_nights = 2, ch_stay_start_date = 739264,
               ch_stay_end_date = 739265\<rparr>],
          rs_costs = \<lparr>outbound_flight = 0, return_flight = 400000, total_flights = 400000,
            accommodation = 900000, buffer_activities_transport = 260000, grand_total = 1560000\<rparr>,
          rs_budget_warning = True\<rparr>"
proof -
  have h: "hotels noprice_store = hotels ex_store" by (simp add: noprice_store_def)
  show ?thesis
    by (simp add: resolve_def read_prefs_def ex_prefs_def ex_itinerary_def ex_dates
        find_flights_for_trip_def noprice_options py_min_def h ex_book_hotels compute_costs_def
        Let_def ex_prices more_prices ex_floats more_floats del: book_hotels.simps)
qed

lemma cheapest_of_options:
  assumes "py_min (\<lambda>f. int_get (base_price_idr f)) (flight_options fls a b d) = Some m"
  shows "(\<exists>i < length (flight_options fls a b d).
            flight_options fls a b d ! i = m \<and>
            (\<forall>j < length (flight_options fls a b d).
               int_get (base_price_idr m) \<le> int_get (base_price_idr (flight_options fls a b d ! j))) \<and>
            (\<forall>j < i. int_get (base_price_idr m) < int_get (base_price_idr (flight_options fls a b d ! j)))) \<and>
         (filter (\<lambda>f. on_route a b f \<and> has_seats f \<and> parse_date (fl_date f) = Some d) fls \<noteq> [] \<longrightarrow>
            (\<exists>i < length fls. fls ! i = m \<and>
               (on_route a b m \<and> has_seats m \<and> parse_date (fl_date m) = Some d) \<and>
               (\<forall>j < length fls.
                  on_route a b (fls ! j) \<and> has_seats (fls ! j) \<and> parse_date (fl_date (fls ! j)) = Some d \<longrightarrow>
                  int_get (base_price_idr m) \<le> int_get (base_price_idr (fls ! j))) \<and>
               (\<forall>j < i.
                  on_route a b (fls ! j) \<and> has_seats (fls ! j) \<and> parse_date (fl_date (fls ! j)) = Some d \<longrightarrow>
                  int_get (base_price_idr m) < int_get (base_price_idr (fls ! j)))))"
proof (intro conjI impI)
  show "\<exists>i < length (flight_options fls a b d).
            flight_options fls a b d ! i = m \<and>
            (\<forall>j < length (flight_options fls a b d).
               int_get (base_price_idr m) \<le> int_get (base_price_idr (flight_options fls a b d ! j))) \<and>
            (\<forall>j < i. int_get (base_price_idr m) < int_get (base_price_idr (flight_options fls a b d ! j)))"
    by (rule py_min_first [OF assms])
next
  assume ne: "filter (\<lambda>f. on_route a b f \<and> has_seats f \<and> parse_date (fl_date f) = Some d) fls \<noteq> []"
  then have "flight_options fls a b d =
      filter (\<lambda>f. on_route a b f \<and> has_seats f \<and> parse_date (fl_date f) = Some d) fls"
    by (simp add: flight_options_def)
  with assms have "py_min (\<lambda>f. int_get (base_price_idr f))
      (filter (\<lambda>f. on_route a b f \<and> has_seats f \<and> parse_date (fl_date f) = Some d) fls) = Some m"
    by simp
  from py_min_filter_first [OF this]
  show "\<exists>i < length fls. fls ! i = m \<and>
               (on_route a b m \<and> has_seats m \<and> parse_date (fl_date m) = Some d) \<and>
               (\<forall>j < length fls.
                  on_route a b (fls ! j) \<and> has_seats (fls ! j) \<and> parse_date (fl_date (fls ! j)) = Some d \<longrightarrow>
                  int_get (base_price_idr m) \<le> int_get (base_price_idr (fls ! j))) \<and>
               (\<forall>j < i.
                  on_route a b (fls ! j) \<and> has_seats (fls ! j) \<and> parse_date (fl_date (fls ! j)) = Some d \<longrightarrow>
                  int_get (base_price_idr m) < int_get (base_price_idr (fls ! j)))"
    by simp
qed

text \<open>
  Claim C4, as amended. In every successful resolution the outbound flight and the return
  flight are each the candidate of their list with the lowest base price (a missing price
  counting as 0), and among equally cheap candidates the first of the candidate list.
  When flights with seats match the route and the date, the candidate list is made of
  them in catalog order, so that ties are broken by catalog order. In the nearest-date
  fallback the list is ordered by distance to the desired date, and ties in price are
  broken by that order.
\<close>

theorem resolve_selects_cheapest_flights:
  assumes "resolve st chosen prefs = Inr r"
  shows "\<exists>orig cs outbound returning.
     origin_city prefs = Some (PyStr orig) \<and> cities chosen = Some cs \<and>
     rs_flights r = [outbound, returning] \<and>
     (\<forall>(m, a, b, d) \<in> {(outbound, orig, hd cs, rs_start_date r),
                         (returning, last cs, orig, rs_end_date r)}.
        (\<exists>i < length (flight_options (flights st) a b d).
            flight_options (flights st) a b d ! i = m \<and>
            (\<forall>j < length (flight_options (flights st) a b d).
               int_get (base_price_idr m) \<le>
                 int_get (base_price_idr (flight_options (flights st) a b d ! j))) \<and>
            (\<forall>j < i. int_get (base_price_idr m) <
                 int_get (base_price_idr (flight_options (flights st) a b d ! j)))) \<and>
        (filter (\<lambda>f. on_route a b f \<and> has_seats f \<and> parse_date (fl_date f) = Some d) (flights st) \<noteq> [] \<longrightarrow>
            (\<exists>i < length (flights st). flights st ! i = m \<and>
               (on_route a b m \<and> has_seats m \<and> parse_date (fl_date m) = Some d) \<and>
               (\<forall>j < length (flights st).
                  on_route a b (flights st ! j) \<and> has_seats (flights st ! j) \<and>
                  parse_date (fl_date (flights st ! j)) = Some d \<longrightarrow>
                  int_get (base_price_idr m) \<le> int_get (base_price_idr (flights st ! j))) \<and>
               (\<forall>j < i.
                  on_route a b (flights st ! j) \<and> has_seats (flights st ! j) \<and>
                  parse_date (fl_date (flights st ! j)) = Some d \<longrightarrow>
                  int_get (base_price_idr m) < int_get (base_price_idr (flights st ! j))))))"
proof -
  from resolve_Inr [OF assms] obtain orig n start cs outbound returning where
    p: "origin_city prefs = Some (PyStr orig)" "cities chosen = Some cs"
    and o: "py_min (\<lambda>f. int_get (base_price_idr f))
       (flight_options (flights st) orig (hd cs) start) = Some outbound"
    and t: "py_min (\<lambda>f. int_get (base_price_idr f))
       (flight_options (flights st) (last cs) orig (start + (n - 1))) = Some returning"
    and r: "rs_start_date r = start" "rs_end_date r = start + (n - 1)"
      "rs_flights r = [outbound, returning]"
    by blast
  note a = cheapest_of_options [OF o] and b = cheapest_of_options [OF t]
  show ?thesis
    apply (rule exI [of _ orig], rule exI [of _ cs])
    apply (rule exI [of _ outbound], rule exI [of _ returning])
    using p r a b by simp
qed

text \<open>
  The claim as stated, ties broken by catalog order for every non-empty candidate set,
  fails in the fallback: of two equally cheap flights, three days and one day after the
  start date in this catalog order, the resolution books the second.
\<close>

theorem resolve_selects_cheapest_flights_counterexample:
  "flights tie_store = [flight_T1, flight_T2, flight_F3] \<and>
   int_get (base_price_idr flight_T1) = int_get (base_price_idr flight_T2) \<and>
   flight_options (flights tie_store) ''Jakarta'' ''Tokyo'' 739261 = [flight_T2, flight_T1] \<and>
   map_sum id rs_flights (resolve tie_store ex_itinerary ex_prefs) = Inr [flight_T2, flight_F3] \<and>
   flight_T1 \<noteq> flight_T2"
  by (simp add: tie_options tie_resolve more_prices)
     (simp add: tie_store_def flight_T1_def flight_T2_def ex_flight_def)

theorem resolve_selects_cheapest_flights_witness:
  "\<exists>r. resolve ex_store ex_itinerary ex_prefs = Inr r \<and>
     rs_flights r = [flight_F2, flight_F3] \<and>
     flights ex_store = [flight_F1, flight_F2, flight_F3] \<and>
     int_get (base_price_idr flight_F1) = 700000 \<and> int_get (base_price_idr flight_F2) = 500000 \<and>
     (\<exists>i < length (flights ex_store). flights ex_store ! i = flight_F2 \<and>
        (\<forall>j < length (flights ex_store).
           on_route ''Jakarta'' ''Tokyo'' (flights ex_store ! j) \<and> has_seats (flights ex_store ! j) \<and>
           parse_date (fl_date (flights ex_store ! j)) = Some 739261 \<longrightarrow>
           500000 \<le> int_get (base_price_idr (flights ex_store ! j))))"
proof -
  from resolve_selects_cheapest_flights [OF ex_resolve]
  obtain orig cs outbound returning where
    p: "origin_city ex_prefs = Some (PyStr orig)" "cities ex_itinerary = Some cs"
    and f: "[flight_F2, flight_F3] = [outbound, returning]"
    and q: "\<forall>(m, a, b, d) \<in> {(outbound, orig, hd cs, 739261), (returning, last cs, orig, 739265)}.
        (\<exists>i < length (flight_options (flights ex_store) a b d).
            flight_options (flights ex_store) a b d ! i = m \<and>
            (\<forall>j < length (flight_options (flights ex_store) a b d).
               int_get (base_price_idr m) \<le>
                 int_get (base_price_idr (flight_options (flights ex_store) a b d ! j))) \<and>
            (\<forall>j < i. int_get (base_price_idr m) <
                 int_get (base_price_idr (flight_options (flights ex_store) a b d ! j)))) \<and>
        (filter (\<lambda>f. on_route a b f \<and> has_seats f \<and> parse_date (fl_date f) = Some d) (flights ex_store) \<noteq> [] \<longrightarrow>
            (\<exists>i < length (flights ex_store). flights ex_store ! i = m \<and>
               (on_route a b m \<and> has_seats m \<and> parse_date (fl_date m) = Some d) \<and>
               (\<forall>j < length (flights ex_store).
                  on_route a b (flights ex_store ! j) \<and> has_seats (flights ex_store ! j) \<and>
                  parse_date (fl_date (flights ex_store ! j)) = Some d \<longrightarrow>
                  int_get (base_price_idr m) \<le> int_get (base_price_idr (flights ex_store ! j))) \<and>
               (\<forall>j < i.
                  on_route a b (flights ex_store ! j) \<and> has_seats (flights ex_store ! j) \<and>
                  parse_date (fl_date (flights ex_store ! j)) = Some d \<longrightarrow>
                  int_get (base_price_idr m) < int_get (base_price_idr (flights ex_store ! j)))))"
    by auto
  from p f have e: "orig = ''Jakarta''" "cs = [''Tokyo'', ''Kyoto'']" "outbound = flight_F2"
    by (simp_all add: ex_prefs_def ex_itinerary_def)
  have ne: "filter (\<lambda>f. on_route ''Jakarta'' ''Tokyo'' f \<and> has_seats f \<and>
       parse_date (fl_date f) = Some 739261) (flights ex_store) \<noteq> []"
    by (simp add: ex_store_lists flight_F1_def ex_flight_def on_route_def has_seats_def
        parse_date_def str_get_def int_get_def ex_dates ex_strings)
  from q have "(filter (\<lambda>f. on_route orig (hd cs) f \<and> has_seats f \<and>
        parse_date (fl_date f) = Some 739261) (flights ex_store) \<noteq> [] \<longrightarrow>
            (\<exists>i < length (flights ex_store). flights ex_store ! i = outbound \<and>
               (on_route orig (hd cs) outbound \<and> has_seats outbound \<and>
                parse_date (fl_date outbound) = Some 739261) \<and>
               (\<forall>j < length (flights ex_store).
                  on_route orig (hd cs) (flights ex_store ! j) \<and> has_seats (flights ex_store ! j) \<and>
                  parse_date (fl_date (flights ex_store ! j)) = Some 739261 \<longrightarrow>
                  int_get (base_price_idr outbound) \<le> int_get (base_price_idr (flights ex_store ! j))) \<and>
               (\<forall>j < i.
                  on_route orig (hd cs) (flights ex_store ! j) \<and> has_seats (flights ex_store ! j) \<and>
                  parse_date (fl_date (flights ex_store ! j)) = Some 739261 \<longrightarrow>
                  int_get (base_price_idr outbound) < int_get (base_price_idr (flights ex_store ! j)))))"
    by simp
  with ne e have "\<exists>i < length (flights ex_store). flights ex_store ! i = flight_F2 \<and>
        (\<forall>j < length (flights ex_store).
           on_route ''Jakarta'' ''Tokyo'' (flights ex_store ! j) \<and> has_seats (flights ex_store ! j) \<and>
           parse_date (fl_date (flights ex_store ! j)) = Some 739261 \<longrightarrow>
           500000 \<le> int_get (base_price_idr (flights ex_store ! j)))"
    by (simp add: ex_prices) blast
  with ex_resolve show ?thesis by (simp add: ex_store_lists ex_prices)
qed

subsection \<open>Records with no price\<close>

lemma compute_costs_Inr:
  assumes "compute_costs outbound returning chosen budget = Inr (cb, w)"
  shows "outbound_flight cb = int_get (base_price_idr outbound) \<and>
    return_flight cb = int_get (base_price_idr returning) \<and>
    total_flights cb = outbound_flight cb + return_flight cb \<and>
    accommodation cb =
      sum_list (map (\<lambda>h. int_get (price_per_night_idr (ch_hotel h)) * ch_nights h) chosen) \<and>
    int_mul_float (total_flights cb + accommodation cb) float_0_2 =
      Inr (buffer_activities_transport cb) \<and>
    grand_total cb = total_flights cb + accommodation cb + buffer_activities_transport cb \<and>
    (\<exists>b limit. budget = PyInt b \<and> int_mul_float b float_1_2 = Inr limit \<and>
       w = (limit < grand_total cb))"
  using assms by (auto simp: compute_costs_def Let_def split: sum.splits pyval.splits)

lemma sum_list_priced:
  "sum_list (map (\<lambda>h. int_get (price_per_night_idr (ch_hotel h)) * ch_nights h) chosen) =
   sum_list (map (\<lambda>h. int_get (price_per_night_idr (ch_hotel h)) * ch_nights h)
     (filter (\<lambda>h. price_per_night_idr (ch_hotel h) \<noteq> None) chosen))"
  by (induction chosen) (auto simp: int_get_def)

text \<open>
  Claim C10, as amended. A flight record with no \<open>base_price_idr\<close> key and a hotel record
  with no \<open>price_per_night_idr\<close> key count as price 0 in the selection and in the costs.
  Such a candidate is selected by \<open>min\<close> when every candidate before it in the candidate
  list has a price above 0 and no candidate has a negative price; the candidate list is in
  catalog order for hotels and for exact-date flights, and in order of date distance for
  the fallback flights. In a successful resolution a selected flight with no price adds
  0 to \<open>total_flights\<close>, and the hotels with no price add nothing to \<open>accommodation\<close>.
\<close>

theorem missing_price_counts_as_zero:
  "(base_price_idr f = None \<longrightarrow> int_get (base_price_idr f) = 0) \<and>
   (price_per_night_idr h = None \<longrightarrow> int_get (price_per_night_idr h) = 0) \<and>
   (i < length fs \<and> base_price_idr (fs ! i) = None \<and>
    (\<forall>j < i. 0 < int_get (base_price_idr (fs ! j))) \<and>
    (\<forall>j < length fs. 0 \<le> int_get (base_price_idr (fs ! j))) \<longrightarrow>
      py_min (\<lambda>f. int_get (base_price_idr f)) fs = Some (fs ! i)) \<and>
   (k < length hs \<and> price_per_night_idr (hs ! k) = None \<and>
    (\<forall>j < k. 0 < int_get (price_per_night_idr (hs ! j))) \<and>
    (\<forall>j < length hs. 0 \<le> int_get (price_per_night_idr (hs ! j))) \<longrightarrow>
      py_min (\<lambda>h. int_get (price_per_night_idr h)) hs = Some (hs ! k)) \<and>
   (resolve st chosen prefs = Inr r \<longrightarrow>
      (\<exists>outbound returning. rs_flights r = [outbound, returning] \<and>
         (base_price_idr outbound = None \<longrightarrow> outbound_flight (rs_costs r) = 0) \<and>
         (base_price_idr returning = None \<longrightarrow> return_flight (rs_costs r) = 0) \<and>
         total_flights (rs_costs r) =
           outbound_flight (rs_costs r) + return_flight (rs_costs r) \<and>
         accommodation (rs_costs r) =
           sum_list (map (\<lambda>c. int_get (price_per_night_idr (ch_hotel c)) * ch_nights c)
             (filter (\<lambda>c. price_per_night_idr (ch_hotel c) \<noteq> None) (rs_hotels r)))))"
proof (intro conjI impI)
  show "int_get (base_price_idr f) = 0" if "base_price_idr f = None"
    using that by (simp add: int_get_def)
  show "int_get (price_per_night_idr h) = 0" if "price_per_night_idr h = None"
    using that by (simp add: int_get_def)
  show "py_min (\<lambda>f. int_get (base_price_idr f)) fs = Some (fs ! i)"
    if a: "i < length fs \<and> base_price_idr (fs ! i) = None \<and>
      (\<forall>j < i. 0 < int_get (base_price_idr (fs ! j))) \<and>
      (\<forall>j < length fs. 0 \<le> int_get (base_price_idr (fs ! j)))"
  proof (rule py_min_selects)
    from a show "i < length fs" by blast
    from a have z: "int_get (base_price_idr (fs ! i)) = 0" by (simp add: int_get_def)
    from a z show "\<forall>j < i. int_get (base_price_idr (fs ! i)) < int_get (base_price_idr (fs ! j))"
      by simp
    from a z show "\<forall>j < length fs. int_get (base_price_idr (fs ! i)) \<le> int_get (base_price_idr (fs ! j))"
      by simp
  qed
  show "py_min (\<lambda>h. int_get (price_per_night_idr h)) hs = Some (hs ! k)"
    if a: "k < length hs \<and> price_per_night_idr (hs ! k) = None \<and>
      (\<forall>j < k. 0 < int_get (price_per_night_idr (hs ! j))) \<and>
      (\<forall>j < length hs. 0 \<le> int_get (price_per_night_idr (hs ! j)))"
  proof (rule py_min_selects)
    from a show "k < length hs" by blast
    from a have z: "int_get (price_per_night_idr (hs ! k)) = 0" by (simp add: int_get_def)
    from a z show "\<forall>j < k. int_get (price_per_night_idr (hs ! k)) < int_get (price_per_night_idr (hs ! j))"
      by simp
    from a z show "\<forall>j < length hs. int_get (price_per_night_idr (hs ! k)) \<le> int_get (price_per_night_idr (hs ! j))"
      by simp
  qed
  show "\<exists>outbound returning. rs_flights r = [outbound, returning] \<and>
         (base_price_idr outbound = None \<longrightarrow> outbound_flight (rs_costs r) = 0) \<and>
         (base_price_idr returning = None \<longrightarrow> return_flight (rs_costs r) = 0) \<and>
         total_flights (rs_costs r) =
           outbound_flight (rs_costs r) + return_flight (rs_costs r) \<and>
         accommodation (rs_costs r) =
           sum_list (map (\<lambda>c. int_get (price_per_night_idr (ch_hotel c)) * ch_nights c)
             (filter (\<lambda>c. price_per_night_idr (ch_hotel c) \<noteq> None) (rs_hotels r)))"
    if a: "resolve st chosen prefs = Inr r"
  proof -
    from resolve_Inr [OF a] obtain budget outbound returning where
      f: "rs_flights r = [outbound, returning]"
      and c: "compute_costs outbound returning (rs_hotels r) budget =
        Inr (rs_costs r, rs_budget_warning r)"
      by blast
    note k = compute_costs_Inr [OF c]
    from k have "accommodation (rs_costs r) =
      sum_list (map (\<lambda>c. int_get (price_per_night_idr (ch_hotel c)) * ch_nights c) (rs_hotels r))"
      by blast
    then have acc: "accommodation (rs_costs r) =
      sum_list (map (\<lambda>c. int_get (price_per_night_idr (ch_hotel c)) * ch_nights c)
        (filter (\<lambda>c. price_per_night_idr (ch_hotel c) \<noteq> None) (rs_hotels r)))"
      by (simp only: sum_list_priced [symmetric])
    from k have "(base_price_idr outbound = None \<longrightarrow> outbound_flight (rs_costs r) = 0) \<and>
         (base_price_idr returning = None \<longrightarrow> return_flight (rs_costs r) = 0) \<and>
         total_flights (rs_costs r) = outbound_flight (rs_costs r) + return_flight (rs_costs r)"
      by (auto simp: int_get_def)
    with f acc show ?thesis
      by (intro exI [of _ outbound] exI [of _ returning]) simp
  qed
qed

text \<open>
  The claim as stated, selected unless a candidate earlier in catalog order has a price of
  at most 0, fails in the fallback: the flight with no price is the first of the catalog,
  and the resolution books the nearer flight of price 0 that follows it.
\<close>

theorem missing_price_counts_as_zero_counterexample:
  "flights free_store = [flight_P1, flight_P2, flight_F3] \<and>
   base_price_idr flight_P1 = None \<and> base_price_idr flight_P2 = Some 0 \<and>
   flight_options (flights free_store) ''Jakarta'' ''Tokyo'' 739261 = [flight_P2, flight_P1] \<and>
   map_sum id rs_flights (resolve free_store ex_itinerary ex_prefs) = Inr [flight_P2, flight_F3] \<and>
   flight_P1 \<noteq> flight_P2"
  by (simp add: free_options free_resolve free_fields)
     (simp add: free_store_def flight_P1_def flight_P2_def ex_flight_def)

theorem missing_price_counts_as_zero_witness:
  "base_price_idr flight_P1 = None \<and> int_get (base_price_idr flight_P1) = 0 \<and>
   price_per_night_idr (ex_hotel ''H9'' ''Tokyo'' ''luxury'' 1 None) = None \<and>
   int_get (price_per_night_idr (ex_hotel ''H9'' ''Tokyo'' ''luxury'' 1 None)) = 0 \<and>
   py_min (\<lambda>f. int_get (base_price_idr f)) [flight_F1, flight_P1, flight_P2] = Some flight_P1 \<and>
   py_min (\<lambda>h. int_get (price_per_night_idr h))
     [hotel_H1, ex_hotel ''H9'' ''Tokyo'' ''luxury'' 1 None] =
     Some (ex_hotel ''H9'' ''Tokyo'' ''luxury'' 1 None) \<and>
   (\<exists>r. resolve noprice_store ex_itinerary ex_prefs = Inr r \<and>
      rs_flights r = [flight_P1, flight_F3] \<and> outbound_flight (rs_costs r) = 0 \<and>
      total_flights (rs_costs r) = return_flight (rs_costs r) \<and>
      accommodation (rs_costs r) = 900000)"
proof -
  let ?h9 = "ex_hotel ''H9'' ''Tokyo'' ''luxury'' 1 None"
  have n: "price_per_night_idr ?h9 = None" "int_get (price_per_night_idr ?h9) = 0"
    by (simp_all add: ex_hotel_def int_get_def)
  from noprice_resolve obtain r where
    r: "resolve noprice_store ex_itinerary ex_prefs = Inr r" "rs_flights r = [flight_P1, flight_F3]"
      "rs_hotels r =
         [\<lparr>ch_hotel = hotel_H1, ch_nights = 3, ch_stay_start_date = 739261,
            ch_stay_end_date = 739263\<rparr>,
          \<lparr>ch_hotel = hotel_H2, ch_nights = 2, ch_stay_start_date = 739264,
            ch_stay_end_date = 739265\<rparr>]"
    by simp
  note t = missing_price_counts_as_zero [of flight_P1 ?h9 1 "[flight_F1, flight_P1, flight_P2]"
      1 "[hotel_H1, ?h9]" noprice_store ex_itinerary ex_prefs r]
  have a: "\<forall>j < (1::nat). 0 < int_get (base_price_idr ([flight_F1, flight_P1, flight_P2] ! j))"
    by (simp add: ex_prices)
  have b: "\<forall>j < length [flight_F1, flight_P1, flight_P2].
      0 \<le> int_get (base_price_idr ([flight_F1, flight_P1, flight_P2] ! j))"
    by (simp add: ex_prices more_prices nth_Cons' All_less_Suc eval_nat_numeral)
  have c: "\<forall>j < (1::nat). 0 < int_get (price_per_night_idr ([hotel_H1, ?h9] ! j))"
    by (simp add: ex_prices)
  have d: "\<forall>j < length [hotel_H1, ?h9]. 0 \<le> int_get (price_per_night_idr ([hotel_H1, ?h9] ! j))"
    by (simp add: ex_prices n(2) nth_Cons' All_less_Suc eval_nat_numeral)
  from t a b free_fields
  have f: "py_min (\<lambda>f. int_get (base_price_idr f)) [flight_F1, flight_P1, flight_P2] = Some flight_P1"
    by simp
  from t c d n
  have g: "py_min (\<lambda>h. int_get (price_per_night_idr h)) [hotel_H1, ?h9] = Some ?h9"
    by simp
  have pr: "price_per_night_idr hotel_H1 \<noteq> None" "price_per_night_idr hotel_H2 \<noteq> None"
    by (simp_all add: hotel_H1_def hotel_H2_def ex_hotel_def)
  note t5 = t [THEN conjunct2, THEN conjunct2, THEN conjunct2, THEN conjunct2, rule_format, OF r(1)]
  from t5 obtain outbound returning where
    q: "rs_flights r = [outbound, returning]"
      "base_price_idr outbound = None \<longrightarrow> outbound_flight (rs_costs r) = 0"
      "total_flights (rs_costs r) = outbound_flight (rs_costs r) + return_flight (rs_costs r)"
      "accommodation (rs_costs r) =
           sum_list (map (\<lambda>c. int_get (price_per_night_idr (ch_hotel c)) * ch_nights c)
             (filter (\<lambda>c. price_per_night_idr (ch_hotel c) \<noteq> None) (rs_hotels r)))"
    by auto
  from q(1) r(2) have "outbound = flight_P1" by simp
  with q(2,3) free_fields have z: "outbound_flight (rs_costs r) = 0"
    "total_flights (rs_costs r) = return_flight (rs_costs r)" by simp_all
  from q(4) have acc: "accommodation (rs_costs r) = 900000"
    by (simp add: r(3) pr ex_prices)
  from r(1,2) z acc have "\<exists>r. resolve noprice_store ex_itinerary ex_prefs = Inr r \<and>
      rs_flights r = [flight_P1, flight_F3] \<and> outbound_flight (rs_costs r) = 0 \<and>
      total_flights (rs_costs r) = return_flight (rs_costs r) \<and>
      accommodation (rs_costs r) = 900000" by blast
  with f g n free_fields(1) more_prices(3) show ?thesis by blast
qed

subsection \<open>Hotel selection\<close>









subsection \<open>Failures of the resolution\<close>




lemma read_prefs_valid:
  assumes "origin_city prefs = Some orig" "travel_style prefs = Some style"
    "budget_idr prefs = Some budget" "trip_length_days prefs = Some days"
    "start_date prefs = Some (PyStr s)" "fromisoformat s = Some start"
  shows "read_prefs prefs = Inr (orig, style, budget, days, start)"
  using assms by (simp add: read_prefs_def)




end
